theory Spec2Isabelle
  imports Complex_Main "HOL-Library.Monad_Syntax"
begin

section \<open>Orbit simulation: trajectory engine, trail buffer and trail mesh builder\<close>

text \<open>
  A shallow embedding of \<^verbatim>\<open>src/components/orbit/OrbitSimulation.tsx\<close>.
  JavaScript numbers are modelled as mathematical reals, except where a property is
  about the rounding of IEEE-754 doubles: there the operations are rounded one by one
  (\<open>round64\<close>). The one place where the component can produce a non-finite number from
  finite ones, a division by zero while normalising a vector, is an explicit failure
  value (\<open>None\<close>).
  Strings (\<^verbatim>\<open>OrbitType\<close>, the orbit identifiers) are HOL strings.
\<close>

subsection \<open>Data model\<close>

type_synonym vec3 = "real \<times> real \<times> real"

text \<open>\<^verbatim>\<open>type TrailPoint = { position; timestamp; opacity }\<close>\<close>

record TrailPoint =
  position :: vec3
  timestamp :: real
  opacity :: real

subsection \<open>Orbit catalog\<close>

text \<open>The identifiers of \<^verbatim>\<open>orbitOptions\<close>, in the order of the source.\<close>

definition orbitOptions :: "string \<Rightarrow> string list" where
  "orbitOptions category =
     (if category = ''lagrange'' then
        [''l1'', ''l2'', ''l3'', ''l4'', ''l5'', ''l1_halo'', ''l2_halo'', ''l3_halo'',
         ''l4_lissajous'', ''l5_lissajous'']
      else if category = ''earth'' then
        [''geo'', ''gso_equator'', ''gso_mid'', ''qzo_8'', ''qzo_asym'', ''molniya'']
      else if category = ''moon'' then
        [''llo_circular'', ''llo_elliptical'', ''llo_polar'', ''frozen'', ''transfer'',
         ''distant'']
      else [])"

text \<open>\<^verbatim>\<open>calculateOrbitPeriod\<close>: the period in seconds.\<close>

definition calculateOrbitPeriod :: "string \<Rightarrow> string \<Rightarrow> real" where
  "calculateOrbitPeriod type orbit =
     (if type = ''lagrange'' then 60
      else if type = ''earth'' then
        (if orbit = ''geo'' \<or> orbit = ''gso_equator'' \<or> orbit = ''gso_mid'' then 40
         else if orbit = ''qzo_8'' \<or> orbit = ''qzo_asym'' then 30
         else if orbit = ''molniya'' then 50
         else 40)
      else if type = ''moon'' then
        (if orbit = ''llo_circular'' \<or> orbit = ''llo_elliptical'' \<or> orbit = ''llo_polar''
         then 20
         else if orbit = ''frozen'' then 30
         else if orbit = ''transfer'' then 100
         else if orbit = ''distant'' then 40
         else 30)
      else 40)"

subsection \<open>Position function\<close>

definition BASE_ORBITAL_SPEED :: real where
  "BASE_ORBITAL_SPEED = 0.0001"

text \<open>
  The position the \<^verbatim>\<open>Moon\<close> component sets in its interval callback, as a function of
  the clock reading and the speed.
\<close>

definition moonPosition :: "real \<Rightarrow> real \<Rightarrow> vec3" where
  "moonPosition currentTime simulationSpeed =
     (let angle = currentTime * BASE_ORBITAL_SPEED * simulationSpeed
      in (10 * cos angle, 0, 10 * sin angle))"

definition calculateNewPosition :: "string \<Rightarrow> string \<Rightarrow> real \<Rightarrow> real \<Rightarrow> vec3" where
  "calculateNewPosition type orbit currentTime simulationSpeed =
     (let angle = currentTime * BASE_ORBITAL_SPEED * simulationSpeed;
          moonAngle = angle;
          moonX = 10 * cos moonAngle;
          moonZ = 10 * sin moonAngle
      in
      if type = ''lagrange'' then
        (if orbit = ''l1'' then (moonX * 0.5, 0, moonZ * 0.5)
         else if orbit = ''l2'' then (moonX * 1.2, 0, moonZ * 1.2)
         else if orbit = ''l3'' then (- 10 * cos moonAngle, 0, - 10 * sin moonAngle)
         else if orbit = ''l4'' then
           (let l4Angle = moonAngle + pi / 3
            in (10 * cos l4Angle, 0, 10 * sin l4Angle))
         else if orbit = ''l5'' then
           (let l5Angle = moonAngle - pi / 3
            in (10 * cos l5Angle, 0, 10 * sin l5Angle))
         else if orbit = ''l1_halo'' then
           (let l1Center = (moonX * 0.5, 0 :: real, moonZ * 0.5)
            in (fst l1Center + sin (angle * 2) * 0.5,
                sin (angle * 3) * 0.8,
                snd (snd l1Center) + cos (angle * 2) * 0.5))
         else if orbit = ''l2_halo'' then
           (let l2Center = (moonX * 1.2, 0 :: real, moonZ * 1.2)
            in (fst l2Center + sin (angle * 2) * 0.5,
                sin (angle * 3) * 0.8,
                snd (snd l2Center) + cos (angle * 2) * 0.5))
         else if orbit = ''l3_halo'' then
           (let l3Center = (- 10 * cos moonAngle, 0 :: real, - 10 * sin moonAngle);
                l3FastAngle = angle * 3
            in (fst l3Center + sin l3FastAngle * 1.5,
                sin (l3FastAngle * 1.2) * 1.0,
                snd (snd l3Center) + cos l3FastAngle * 1.5))
         else if orbit = ''l4_lissajous'' then
           (let l4Center = (10 * cos (moonAngle + pi / 3), 0 :: real,
                            10 * sin (moonAngle + pi / 3));
                l4FastAngle = angle * 2
            in (fst l4Center + sin (l4FastAngle * 0.7) * 1.2,
                sin (l4FastAngle * 1.1) * 0.8,
                snd (snd l4Center) + sin (l4FastAngle * 0.9) * 1.2))
         else if orbit = ''l5_lissajous'' then
           (let l5Center = (10 * cos (moonAngle - pi / 3), 0 :: real,
                            10 * sin (moonAngle - pi / 3));
                l5FastAngle = angle * 2
            in (fst l5Center + sin (l5FastAngle * 0.8) * 1.2,
                sin (l5FastAngle * 1.2) * 0.8,
                snd (snd l5Center) + sin (l5FastAngle * 1.0) * 1.2))
         else (5, 0, 0))
      else if type = ''earth'' then
        (if orbit = ''geo'' then (4 * cos (angle * 0.1), 0, 4 * sin (angle * 0.1))
         else if orbit = ''gso_equator'' then
           (4 * cos (angle * 0.1), sin (angle * 0.05) * 0.2, 4 * sin (angle * 0.1))
         else (4, 0, 0))
      else if type = ''moon'' then
        (if orbit = ''llo_circular'' then
           (let lloAngle = angle * 5
            in (moonX + cos lloAngle * 1.5, 0, moonZ + sin lloAngle * 1.5))
         else if orbit = ''llo_elliptical'' then
           (let moonEccentricity = 0.3;
                moonSemiMajorAxis = 1.8;
                moonOrbitAngle = angle * 5;
                moonRadius = moonSemiMajorAxis * (1 - moonEccentricity * cos moonOrbitAngle)
            in (moonX + moonRadius * cos moonOrbitAngle, 0,
                moonZ + moonRadius * sin moonOrbitAngle))
         else if orbit = ''llo_polar'' then
           (let polarAngle = angle * 5
            in (moonX + cos polarAngle * 1.5, sin polarAngle * 1.5, moonZ))
         else if orbit = ''frozen'' then
           (moonX + cos angle * 2, sin (angle * 0.5) * 0.5, moonZ + sin angle * 2)
         else if orbit = ''transfer'' then
           (let transferPhase = (sin (angle * 0.05) + 1) / 2
            in (moonX * transferPhase,
                sin (angle * 0.2) * (1 - transferPhase) * 2,
                moonZ * transferPhase))
         else if orbit = ''distant'' then
           (moonX + cos (angle * 0.3) * 3, sin (angle * 0.3) * 2,
            moonZ + sin (angle * 0.3) * 3)
         else (moonX + 1.5, 0, moonZ))
      else (5, 0, 0))"

subsection \<open>Binary64 arithmetic\<close>

text \<open>
  JavaScript numbers are IEEE-754 binary64 values, and every arithmetic operation rounds
  its exact result to the nearest one, ties to the even significand. \<open>round64\<close> is that
  rounding: the exponent of \<open>x\<close> is \<open>\<lfloor>log 2 \<bar>x\<bar>\<rfloor>\<close>, not below \<open>- 1022\<close>, the
  spacing of the binary64 values around \<open>x\<close> is \<open>2 powi (exponent - 52)\<close>, and \<open>x\<close> is
  rounded to a multiple of the spacing. Overflow is not part of the model: the magnitudes
  of the component stay far below \<open>2 ^ 1024\<close>.
\<close>

definition rne :: "real \<Rightarrow> int" where
  "rne y =
     (let f = \<lfloor>y\<rfloor>; d = y - of_int f
      in if d < 1 / 2 then f else if 1 / 2 < d then f + 1 else if even f then f else f + 1)"

definition exponent64 :: "real \<Rightarrow> int" where
  "exponent64 x = (if x = 0 then - 1022 else max \<lfloor>log 2 \<bar>x\<bar>\<rfloor> (- 1022))"

definition ulp64 :: "real \<Rightarrow> real" where
  "ulp64 x = 2 powi (exponent64 x - 52)"

definition round64 :: "real \<Rightarrow> real" where
  "round64 x = of_int (rne (x / ulp64 x)) * ulp64 x"

text \<open>
  \<^verbatim>\<open>Math.sin\<close> and \<^verbatim>\<open>Math.cos\<close> are built-ins of the JavaScript engine, not code of
  the component, and the language leaves their last bit to the implementation. They are
  taken as the correctly rounded sine and cosine.
\<close>

definition Math_sin :: "real \<Rightarrow> real" where
  "Math_sin x = round64 (sin x)"

definition Math_cos :: "real \<Rightarrow> real" where
  "Math_cos x = round64 (cos x)"

text \<open>
  The \<^verbatim>\<open>moon\<close>/\<^verbatim>\<open>llo_circular\<close> path of \<^verbatim>\<open>calculateNewPosition\<close> and the position
  of the \<^verbatim>\<open>Moon\<close> component once more, now with every operation rounded as the engine
  does: \<open>angle64\<close> is \<^verbatim>\<open>currentTime * BASE_ORBITAL_SPEED * simulationSpeed\<close>, evaluated
  from the left, with the constant \<^verbatim>\<open>0.0001\<close> itself rounded. \<open>lloCircularOffset64\<close>
  is the local loop of radius 1.5 that the orbit adds to the Moon's position, and
  \<open>lloCircularCentre64\<close> is the returned position minus that offset.
\<close>

definition angle64 :: "real \<Rightarrow> real \<Rightarrow> real" where
  "angle64 currentTime simulationSpeed =
     round64 (round64 (currentTime * round64 0.0001) * simulationSpeed)"

definition moonPosition64 :: "real \<Rightarrow> real \<Rightarrow> vec3" where
  "moonPosition64 currentTime simulationSpeed =
     (let angle = angle64 currentTime simulationSpeed
      in (round64 (10 * Math_cos angle), 0, round64 (10 * Math_sin angle)))"

definition lloCircularOffset64 :: "real \<Rightarrow> real \<Rightarrow> vec3" where
  "lloCircularOffset64 currentTime simulationSpeed =
     (let angle = angle64 currentTime simulationSpeed;
          lloAngle = round64 (angle * 5)
      in (round64 (Math_cos lloAngle * 1.5), 0, round64 (Math_sin lloAngle * 1.5)))"

definition lloCircularPosition64 :: "real \<Rightarrow> real \<Rightarrow> vec3" where
  "lloCircularPosition64 currentTime simulationSpeed =
     (let angle = angle64 currentTime simulationSpeed;
          moonAngle = angle;
          moonX = round64 (10 * Math_cos moonAngle);
          moonZ = round64 (10 * Math_sin moonAngle);
          lloAngle = round64 (angle * 5)
      in (round64 (moonX + round64 (Math_cos lloAngle * 1.5)),
          0,
          round64 (moonZ + round64 (Math_sin lloAngle * 1.5))))"

definition lloCircularCentre64 :: "real \<Rightarrow> real \<Rightarrow> vec3" where
  "lloCircularCentre64 currentTime simulationSpeed =
     (case lloCircularPosition64 currentTime simulationSpeed of (px, py, pz) \<Rightarrow>
      case lloCircularOffset64 currentTime simulationSpeed of (ox, oy, oz) \<Rightarrow>
        (round64 (px - ox), round64 (py - oy), round64 (pz - oz)))"

subsection \<open>Trail buffer\<close>

text \<open>\<^verbatim>\<open>type SatelliteProps\<close>\<close>

record SatelliteProps =
  orbitType :: string
  specificOrbit :: string
  simulationSpeed :: real
  size' :: real
  paused :: bool
  showTrail :: bool

text \<open>
  The state of a mounted \<^verbatim>\<open>Satellite\<close>: the two \<^verbatim>\<open>useState\<close> cells and the
  \<^verbatim>\<open>orbitPeriodRef\<close> ref cell.
\<close>

record SatelliteState =
  satPosition :: vec3
  trail :: "TrailPoint list"
  orbitPeriodRef :: real

text \<open>
  The updater passed to \<^verbatim>\<open>setTrail\<close> when the trail is shown: every point of the
  previous buffer gets a new opacity, the points older than two periods are filtered
  out, and the new point is appended with opacity 1.
\<close>

definition trailUpdater :: "real \<Rightarrow> vec3 \<Rightarrow> real \<Rightarrow> TrailPoint list \<Rightarrow> TrailPoint list" where
  "trailUpdater orbitPeriod newPosition currentTime prev =
     (let newPoint = \<lparr>position = newPosition, timestamp = currentTime, opacity = 1.0\<rparr>;
          updatedTrail =
            map (\<lambda>point. point\<lparr>opacity :=
                   max 0 (1.0 - ((currentTime - timestamp point) / 1000 - orbitPeriod)
                                  / orbitPeriod)\<rparr>) prev;
          filteredTrail =
            filter (\<lambda>point. (currentTime - timestamp point) / 1000 \<le> orbitPeriod * 2)
              updatedTrail
      in filteredTrail @ [newPoint])"

text \<open>
  The body of the orbit effect before it installs the interval: nothing while paused,
  otherwise the period of the selected orbit is stored in \<^verbatim>\<open>orbitPeriodRef\<close>.
\<close>

definition orbitEffect :: "SatelliteProps \<Rightarrow> SatelliteState \<Rightarrow> SatelliteState" where
  "orbitEffect props st =
     (if paused props then st
      else st\<lparr>orbitPeriodRef := calculateOrbitPeriod (orbitType props) (specificOrbit props)\<rparr>)"

text \<open>One run of the interval callback at clock reading \<open>currentTime\<close>.\<close>

definition intervalTick :: "SatelliteProps \<Rightarrow> real \<Rightarrow> SatelliteState \<Rightarrow> SatelliteState" where
  "intervalTick props currentTime st =
     (let newPosition = calculateNewPosition (orbitType props) (specificOrbit props)
                          currentTime (simulationSpeed props)
      in st\<lparr>satPosition := newPosition,
            trail := (if showTrail props
                      then trailUpdater (orbitPeriodRef st) newPosition currentTime (trail st)
                      else [])\<rparr>)"

text \<open>The interval callback run at each clock reading of a list, in order.\<close>

fun runTicks :: "SatelliteProps \<Rightarrow> real list \<Rightarrow> SatelliteState \<Rightarrow> SatelliteState" where
  "runTicks props [] st = st"
| "runTicks props (t # ts) st = runTicks props ts (intervalTick props t st)"

text \<open>
  The props and the state with which \<^verbatim>\<open>OrbitSimulation\<close> first mounts the satellite:
  the \<^verbatim>\<open>l1\<close> Lagrange orbit at speed 1, running, with the trail shown and empty.
\<close>

definition initialProps :: SatelliteProps where
  "initialProps = \<lparr>orbitType = ''lagrange'', specificOrbit = ''l1'', simulationSpeed = 1,
                   size' = 20, paused = False, showTrail = True\<rparr>"

definition initialState :: SatelliteState where
  "initialState = \<lparr>satPosition = (5, 0, 0), trail = [], orbitPeriodRef = 0\<rparr>"

subsection \<open>Trail mesh builder\<close>

text \<open>
  The parts of the three.js library that the builder calls. \<^verbatim>\<open>Vector3\<close> and
  \<^verbatim>\<open>Color\<close> are library classes, not code of the component; their methods are written
  here as the library computes them: \<^verbatim>\<open>length\<close> is the Euclidean norm,
  \<^verbatim>\<open>divideScalar(s)\<close> is \<^verbatim>\<open>multiplyScalar(1 / s)\<close>, and \<^verbatim>\<open>normalize()\<close> is
  \<^verbatim>\<open>divideScalar(length() || 1)\<close>. A division by zero is the failure \<open>None\<close>: in
  JavaScript it gives an infinity and, multiplied with a zero component, NaN.
\<close>

datatype Vector3 = Vector3 (vec_x: real) (vec_y: real) (vec_z: real)

datatype Color = Color (col_r: real) (col_g: real) (col_b: real)

definition length_v :: "Vector3 \<Rightarrow> real" where
  "length_v v = sqrt (vec_x v * vec_x v + vec_y v * vec_y v + vec_z v * vec_z v)"

definition multiplyScalar :: "Vector3 \<Rightarrow> real \<Rightarrow> Vector3" where
  "multiplyScalar v s = Vector3 (vec_x v * s) (vec_y v * s) (vec_z v * s)"

definition divideScalar :: "Vector3 \<Rightarrow> real \<Rightarrow> Vector3 option" where
  "divideScalar v s = (if s = 0 then None else Some (multiplyScalar v (1 / s)))"

text \<open>JavaScript's \<^verbatim>\<open>a || b\<close> on numbers: \<^verbatim>\<open>b\<close> when \<^verbatim>\<open>a\<close> is zero.\<close>

definition js_or :: "real \<Rightarrow> real \<Rightarrow> real" where
  "js_or a b = (if a = 0 then b else a)"

definition normalize :: "Vector3 \<Rightarrow> Vector3 option" where
  "normalize v = divideScalar v (js_or (length_v v) 1)"

definition multiplyScalar_c :: "Color \<Rightarrow> real \<Rightarrow> Color" where
  "multiplyScalar_c c s = Color (col_r c * s) (col_g c * s) (col_b c * s)"

text \<open>
  \<^verbatim>\<open>BufferGeometry\<close> with the two attributes and the index that the builder sets. The
  attributes are flat arrays, three numbers per vertex.
\<close>

record BufferGeometry =
  positions :: "real list"
  vertexColors :: "real list"
  indices :: "nat list"

text \<open>
  A counting loop \<^verbatim>\<open>for (let i = i0; i < n; i++)\<close> whose body may fail.
\<close>

function forLoop :: "(nat \<Rightarrow> 'a \<Rightarrow> 'a option) \<Rightarrow> nat \<Rightarrow> nat \<Rightarrow> 'a \<Rightarrow> 'a option" where
  "forLoop body i n acc =
     (if i < n then
        (case body i acc of None \<Rightarrow> None | Some acc' \<Rightarrow> forLoop body (i + 1) n acc')
      else Some acc)"
  by pat_completeness auto
termination
  by (relation "measure (\<lambda>(body, i, n, acc). n - i)") auto

declare forLoop.simps [simp del]

text \<open>
  The body of the first loop of \<^verbatim>\<open>generateTrailGeometry\<close>, for the segment from point
  \<open>i\<close> to point \<open>i + 1\<close>. Reading \<^verbatim>\<open>colors[i]\<close> or \<^verbatim>\<open>lineWidths[i]\<close> past the end
  of the array is a failure (a TypeError on \<^verbatim>\<open>undefined.r\<close>, a NaN width); the
  bound of the loop keeps \<open>i + 1\<close> inside \<open>points\<close>. A write into a
  \<^verbatim>\<open>Float32Array\<close> never extends it, as list update.
\<close>

definition segmentBody ::
  "vec3 list \<Rightarrow> Color list \<Rightarrow> real list \<Rightarrow> nat \<Rightarrow> real list \<times> real list
    \<Rightarrow> (real list \<times> real list) option" where
  "segmentBody points colors lineWidths i bufs =
     (if i < length colors \<and> i < length lineWidths then
        do {
          let (c0, c1, c2) = points ! i;
          let (n0, n1, n2) = points ! (i + 1);
          direction \<leftarrow> normalize (Vector3 (n0 - c0) (n1 - c1) (n2 - c2));
          perpendicular \<leftarrow> normalize (Vector3 (- vec_z direction) 0 (vec_x direction));
          let width = lineWidths ! i * 0.1;
          let ps = (fst bufs)
                [i * 6 := c0 + vec_x perpendicular * width,
                 i * 6 + 1 := c1,
                 i * 6 + 2 := c2 + vec_z perpendicular * width,
                 i * 6 + 3 := c0 - vec_x perpendicular * width,
                 i * 6 + 4 := c1,
                 i * 6 + 5 := c2 - vec_z perpendicular * width];
          let cs = (snd bufs)
                [i * 6 := col_r (colors ! i),
                 i * 6 + 1 := col_g (colors ! i),
                 i * 6 + 2 := col_b (colors ! i),
                 i * 6 + 3 := col_r (colors ! i),
                 i * 6 + 4 := col_g (colors ! i),
                 i * 6 + 5 := col_b (colors ! i)];
          Some (ps, cs)
        }
      else None)"

text \<open>The body of the second loop: six indices, two triangles, for segment \<open>i\<close>.\<close>

definition indexBody :: "nat \<Rightarrow> nat list \<Rightarrow> nat list option" where
  "indexBody i acc =
     (let base = i * 2
      in Some (acc @ [base, base + 1, base + 2] @ [base + 2, base + 1, base + 3]))"

definition generateTrailGeometry ::
  "vec3 list \<Rightarrow> Color list \<Rightarrow> real list \<Rightarrow> BufferGeometry option" where
  "generateTrailGeometry points colors lineWidths =
     do {
       (ps, cs) \<leftarrow> forLoop (segmentBody points colors lineWidths) 0 (length points - 1)
                     (replicate (length points * 6) 0, replicate (length points * 6) 0);
       idx \<leftarrow> forLoop indexBody 0 (length points - 1) [];
       Some \<lparr>positions = ps, vertexColors = cs, indices = idx\<rparr>
     }"

text \<open>
  The arrays that the frame callback builds from the trail before it calls the builder,
  which it does for a trail of more than one point; \<open>color\<close> is the colour of the
  satellite.
\<close>

definition trailGeometry :: "Color \<Rightarrow> TrailPoint list \<Rightarrow> BufferGeometry option" where
  "trailGeometry color tr =
     generateTrailGeometry (map position tr)
       (map (\<lambda>point. multiplyScalar_c color (opacity point)) tr)
       (map opacity tr)"

text \<open>Vertex \<open>k\<close> of a flat attribute array, the one an index \<open>k\<close> refers to.\<close>

definition vertexAt :: "real list \<Rightarrow> nat \<Rightarrow> vec3" where
  "vertexAt buf k = (buf ! (3 * k), buf ! (3 * k + 1), buf ! (3 * k + 2))"

text \<open>
  Vocabulary for the properties of the builder. \<open>normalized\<close> is the value of
  \<open>normalize\<close>, which never fails; \<open>segmentPerpendicular\<close>, \<open>segmentPositions\<close>,
  \<open>segmentColors\<close> and \<open>segmentIndices\<close> are what one iteration of each loop writes for
  segment \<open>i\<close>.
\<close>

definition normalized :: "Vector3 \<Rightarrow> Vector3" where
  "normalized v = multiplyScalar v (1 / js_or (length_v v) 1)"

definition segmentPerpendicular :: "vec3 \<Rightarrow> vec3 \<Rightarrow> Vector3" where
  "segmentPerpendicular current next =
     (case current of (c0, c1, c2) \<Rightarrow> case next of (n0, n1, n2) \<Rightarrow>
        let direction = normalized (Vector3 (n0 - c0) (n1 - c1) (n2 - c2))
        in normalized (Vector3 (- vec_z direction) 0 (vec_x direction)))"

definition segmentPositions :: "vec3 list \<Rightarrow> real list \<Rightarrow> nat \<Rightarrow> real list" where
  "segmentPositions points lineWidths i =
     (case points ! i of (c0, c1, c2) \<Rightarrow>
        let perpendicular = segmentPerpendicular (points ! i) (points ! (i + 1));
            width = lineWidths ! i * 0.1
        in [c0 + vec_x perpendicular * width, c1, c2 + vec_z perpendicular * width,
            c0 - vec_x perpendicular * width, c1, c2 - vec_z perpendicular * width])"

definition segmentColors :: "Color list \<Rightarrow> nat \<Rightarrow> real list" where
  "segmentColors colors i =
     [col_r (colors ! i), col_g (colors ! i), col_b (colors ! i),
      col_r (colors ! i), col_g (colors ! i), col_b (colors ! i)]"

definition segmentIndices :: "nat \<Rightarrow> nat list" where
  "segmentIndices i = [i * 2, i * 2 + 1, i * 2 + 2, i * 2 + 2, i * 2 + 1, i * 2 + 3]"

text \<open>
  A triangle has zero area when the cross product of two of its edge vectors vanishes.
\<close>

definition cross :: "vec3 \<Rightarrow> vec3 \<Rightarrow> vec3" where
  "cross u v =
     (case u of (u0, u1, u2) \<Rightarrow> case v of (v0, v1, v2) \<Rightarrow>
        (u1 * v2 - u2 * v1, u2 * v0 - u0 * v2, u0 * v1 - u1 * v0))"

definition sub3 :: "vec3 \<Rightarrow> vec3 \<Rightarrow> vec3" where
  "sub3 u v =
     (case u of (u0, u1, u2) \<Rightarrow> case v of (v0, v1, v2) \<Rightarrow> (u0 - v0, u1 - v1, u2 - v2))"

definition zeroArea :: "vec3 \<Rightarrow> vec3 \<Rightarrow> vec3 \<Rightarrow> bool" where
  "zeroArea a b c \<longleftrightarrow> cross (sub3 b a) (sub3 c a) = (0, 0, 0)"

text \<open>
  Three collinear samples with opacity 1, 16 ms apart on the \<open>x\<close> axis, and the
  geometry that the builder returns for them with a white satellite.
\<close>

definition collinearTrail :: "TrailPoint list" where
  "collinearTrail =
     [\<lparr>position = (0, 0, 0), timestamp = 0, opacity = 1\<rparr>,
      \<lparr>position = (1, 0, 0), timestamp = 16, opacity = 1\<rparr>,
      \<lparr>position = (2, 0, 0), timestamp = 32, opacity = 1\<rparr>]"

definition collinearGeometry :: BufferGeometry where
  "collinearGeometry =
     \<lparr>positions = [0, 0, 1 / 10, 0, 0, - 1 / 10, 1, 0, 1 / 10, 1, 0, - 1 / 10,
                   0, 0, 0, 0, 0, 0],
      vertexColors = [1, 1, 1, 1, 1, 1, 1, 1, 1, 1, 1, 1, 0, 0, 0, 0, 0, 0],
      indices = [0, 1, 2, 2, 1, 3, 2, 3, 4, 4, 3, 5]\<rparr>"

subsection \<open>Properties\<close>

lemma calculateOrbitPeriod_pos: "0 < calculateOrbitPeriod type orbit"
  by (simp add: calculateOrbitPeriod_def)

lemma orbitPeriodRef_intervalTick [simp]:
  "orbitPeriodRef (intervalTick props t st) = orbitPeriodRef st"
  by (simp add: intervalTick_def Let_def)

lemma orbitPeriodRef_runTicks [simp]:
  "orbitPeriodRef (runTicks props ts st) = orbitPeriodRef st"
  by (induction ts arbitrary: st) simp_all

lemma orbitPeriodRef_orbitEffect:
  "\<not> paused props \<Longrightarrow>
   orbitPeriodRef (orbitEffect props st) =
     calculateOrbitPeriod (orbitType props) (specificOrbit props)"
  by (simp add: orbitEffect_def)

lemma trailUpdater_butlast:
  "butlast (trailUpdater P pos now prev) =
     map (\<lambda>p. p\<lparr>opacity := max 0 (1 - ((now - timestamp p) / 1000 - P) / P)\<rparr>)
       (filter (\<lambda>p. (now - timestamp p) / 1000 \<le> P * 2) prev)"
  by (simp add: trailUpdater_def Let_def filter_map comp_def)

lemma trailUpdater_last:
  "last (trailUpdater P pos now prev) = \<lparr>position = pos, timestamp = now, opacity = 1\<rparr>"
  by (simp add: trailUpdater_def Let_def)

lemmas tick_eval = initialProps_def initialState_def orbitEffect_def intervalTick_def
  trailUpdater_def calculateOrbitPeriod_def Let_def

lemmas pos_eval = calculateNewPosition_def BASE_ORBITAL_SPEED_def moonPosition_def Let_def

subsubsection \<open>Trail buffer\<close>

text \<open>
  Claim C1. At every tick of a running satellite with the trail shown, whatever ticks
  came before, every sample kept from the previous buffer gets the opacity
  \<open>max 0 (1 - ((now - timestamp) / 1000 - P) / P)\<close>, where \<open>P\<close> is the period of the
  selected orbit; the kept samples are those of age at most \<open>2 * P\<close> seconds, in their
  order; the sample recorded by this tick follows them with opacity 1.
\<close>

theorem tick_recomputes_retained_opacity:
  assumes "\<not> paused props" and "showTrail props"
  shows "let P = calculateOrbitPeriod (orbitType props) (specificOrbit props);
             before = runTicks props ts (orbitEffect props st);
             after = intervalTick props now before
         in butlast (trail after) =
              map (\<lambda>p. p\<lparr>opacity := max 0 (1 - ((now - timestamp p) / 1000 - P) / P)\<rparr>)
                (filter (\<lambda>p. (now - timestamp p) / 1000 \<le> P * 2) (trail before))
            \<and> (\<forall>p \<in> set (butlast (trail after)).
                 opacity p = max 0 (1 - ((now - timestamp p) / 1000 - P) / P))
            \<and> last (trail after) =
                \<lparr>position = calculateNewPosition (orbitType props) (specificOrbit props) now
                              (simulationSpeed props),
                 timestamp = now, opacity = 1\<rparr>"
proof -
  define P where "P = calculateOrbitPeriod (orbitType props) (specificOrbit props)"
  define before where "before = runTicks props ts (orbitEffect props st)"
  define after where "after = intervalTick props now before"
  have ref: "orbitPeriodRef before = P"
    using assms(1) by (simp add: before_def P_def orbitPeriodRef_orbitEffect)
  have tr: "trail after =
      trailUpdater P (calculateNewPosition (orbitType props) (specificOrbit props) now
                        (simulationSpeed props)) now (trail before)"
    using assms(2) ref by (simp add: after_def intervalTick_def Let_def)
  have b: "butlast (trail after) =
           map (\<lambda>p. p\<lparr>opacity := max 0 (1 - ((now - timestamp p) / 1000 - P) / P)\<rparr>)
             (filter (\<lambda>p. (now - timestamp p) / 1000 \<le> P * 2) (trail before))"
    by (simp only: tr trailUpdater_butlast)
  have "\<forall>p \<in> set (butlast (trail after)).
              opacity p = max 0 (1 - ((now - timestamp p) / 1000 - P) / P)"
    unfolding b by auto
  with b tr have "butlast (trail after) =
              map (\<lambda>p. p\<lparr>opacity := max 0 (1 - ((now - timestamp p) / 1000 - P) / P)\<rparr>)
                (filter (\<lambda>p. (now - timestamp p) / 1000 \<le> P * 2) (trail before))
            \<and> (\<forall>p \<in> set (butlast (trail after)).
                 opacity p = max 0 (1 - ((now - timestamp p) / 1000 - P) / P))
            \<and> last (trail after) =
                \<lparr>position = calculateNewPosition (orbitType props) (specificOrbit props) now
                              (simulationSpeed props),
                 timestamp = now, opacity = 1\<rparr>"
    by (simp only: trailUpdater_last simp_thms)
  then show ?thesis
    unfolding Let_def P_def before_def after_def .
qed

text \<open>
  The third tick of the initial satellite, 32 ms after the first: the two older
  samples, 32 ms and 16 ms old, get an opacity from the formula.
\<close>

theorem tick_recomputes_retained_opacity_witness:
  "\<not> paused initialProps \<and> showTrail initialProps \<and>
   map opacity (butlast (trail (intervalTick initialProps 32
      (runTicks initialProps [0, 16] (orbitEffect initialProps initialState)))))
     = [7498 / 3750, 7499 / 3750]"
  using tick_recomputes_retained_opacity [of initialProps "[0, 16]" initialState 32]
  by (simp add: tick_eval)

text \<open>
  Claim C2 (the opacity of a retained sample lies in \<open>[0, 1]\<close> and is exactly 1 while the
  sample is younger than one period) fails on the code: the formula has no upper clamp.
  The initial satellite ticks at 0 ms and at 16 ms; the sample recorded by the first tick,
  created with opacity 1, has opacity \<open>2 - 0.016 / 60 = 7499 / 3750\<close> after the second.
\<close>

theorem opacity_exceeds_one_after_first_tick:
  "map opacity (trail (runTicks initialProps [0, 16] (orbitEffect initialProps initialState)))
     = [7499 / 3750, 1]
   \<and> (7499 / 3750 :: real) > 1"
  by (simp add: tick_eval)

text \<open>
  Claim C4, as stated, fails at the boundary: at the tick exactly two periods
  (\<open>2 * 60 * 1000\<close> ms) after a sample was recorded, the sample is still in the buffer.
\<close>

theorem sample_retained_at_two_periods:
  "calculateOrbitPeriod (orbitType initialProps) (specificOrbit initialProps) = 60
   \<and> map timestamp (trail (runTicks initialProps [0, 0 + 2 * 60 * 1000]
                              (orbitEffect initialProps initialState))) = [0, 120000]"
  by (simp add: tick_eval)

text \<open>
  Claim C4, amended. After every tick of a running satellite, every sample in the buffer
  has an age of at most twice the period of the selected orbit; so a sample recorded at
  \<open>t0\<close> is absent at every tick at a time strictly later than \<open>t0\<close> plus two periods.
\<close>

theorem retained_age_at_most_two_periods:
  assumes "\<not> paused props"
  shows "let P = calculateOrbitPeriod (orbitType props) (specificOrbit props);
             after = intervalTick props now (runTicks props ts (orbitEffect props st))
         in (\<forall>p \<in> set (trail after). (now - timestamp p) / 1000 \<le> 2 * P)
            \<and> (\<forall>t0. t0 + 2 * P * 1000 < now \<longrightarrow> t0 \<notin> timestamp ` set (trail after))"
proof -
  define P where "P = calculateOrbitPeriod (orbitType props) (specificOrbit props)"
  define before where "before = runTicks props ts (orbitEffect props st)"
  define after where "after = intervalTick props now before"
  have P: "0 < P"
    by (simp add: P_def calculateOrbitPeriod_pos)
  have ref: "orbitPeriodRef before = P"
    using assms by (simp add: before_def P_def orbitPeriodRef_orbitEffect)
  have age: "(now - timestamp p) / 1000 \<le> 2 * P" if "p \<in> set (trail after)" for p
  proof (cases "showTrail props")
    case True
    with that ref have "p \<in> set (trailUpdater P
        (calculateNewPosition (orbitType props) (specificOrbit props) now
           (simulationSpeed props)) now (trail before))"
      by (simp add: after_def intervalTick_def Let_def)
    with P show ?thesis
      by (auto simp: trailUpdater_def Let_def)
  next
    case False
    with that show ?thesis
      by (simp add: after_def intervalTick_def Let_def)
  qed
  have "t0 \<notin> timestamp ` set (trail after)" if "t0 + 2 * P * 1000 < now" for t0
  proof
    assume "t0 \<in> timestamp ` set (trail after)"
    then obtain p where "p \<in> set (trail after)" and "timestamp p = t0"
      by auto
    with age [of p] that show False
      by simp
  qed
  with age have "(\<forall>p \<in> set (trail after). (now - timestamp p) / 1000 \<le> 2 * P)
            \<and> (\<forall>t0. t0 + 2 * P * 1000 < now \<longrightarrow> t0 \<notin> timestamp ` set (trail after))"
    by blast
  then show ?thesis
    unfolding Let_def P_def before_def after_def .
qed

text \<open>
  One millisecond past two periods the sample recorded at 0 ms is gone, the one recorded
  at 16 ms is still there.
\<close>

theorem retained_age_at_most_two_periods_witness:
  "\<not> paused initialProps \<and>
   map timestamp (trail (intervalTick initialProps 120001
      (runTicks initialProps [0, 16] (orbitEffect initialProps initialState)))) = [16, 120001]
   \<and> (0::real) \<notin> set [16, 120001]"
  using retained_age_at_most_two_periods [of initialProps 120001 "[0, 16]" initialState]
  by (simp add: tick_eval)

subsubsection \<open>Position function\<close>

lemma sin_six_upper: "sin (6::real) < - 1 / 4"
proof -
  have "\<bar>sin (6::real) - (\<Sum>m<24. sin_coeff m * 6 ^ m)\<bar> \<le> inverse (fact 24) * \<bar>6\<bar> ^ 24"
    by (rule Maclaurin_sin_bound)
  moreover have "(\<Sum>m<24. sin_coeff m * (6::real) ^ m) < - 27 / 100"
    by (simp add: lessThan_nat_numeral sin_coeff_def fact_numeral)
  moreover have "inverse (fact 24) * \<bar>6::real\<bar> ^ 24 < 1 / 100"
    by (simp add: fact_numeral)
  ultimately show ?thesis
    by linarith
qed

text \<open>
  Claim C3 (the \<^verbatim>\<open>l1\<close> position repeats after the catalog period of 60 seconds divided
  by the speed) fails on the code. The clock reading is in milliseconds, so the period is
  \<open>60 * 1000\<close> ms; at speed 1 the angle then advances by \<open>60000 * 0.0001 = 6\<close> radians,
  not by \<open>2 * pi\<close>. The position at 0 ms is \<open>(5, 0, 0)\<close>; one period later the
  \<open>z\<close> coordinate is \<open>5 * sin 6\<close>, below \<open>- 5 / 4\<close>.
\<close>

theorem l1_not_periodic_in_catalog_period:
  "calculateOrbitPeriod ''lagrange'' ''l1'' = 60
   \<and> calculateNewPosition ''lagrange'' ''l1'' 0 1 = (5, 0, 0)
   \<and> snd (snd (calculateNewPosition ''lagrange'' ''l1'' (0 + 60 * 1000 / 1) 1)) = 5 * sin 6
   \<and> snd (snd (calculateNewPosition ''lagrange'' ''l1'' (0 + 60 * 1000 / 1) 1)) < - 5 / 4"
  using sin_six_upper by (simp add: pos_eval calculateOrbitPeriod_def)

text \<open>
  Claim C5. The position of an unknown Lagrange orbit such as \<^verbatim>\<open>nonexistent\<close> is
  \<open>(5, 0, 0)\<close> at every time and speed; an unrecognised family gives \<open>(5, 0, 0)\<close> too; an
  identifier that is not in the list of a recognised family gives a position at a fixed
  offset: \<open>(5, 0, 0)\<close> for the Lagrange family, \<open>(4, 0, 0)\<close> for the Earth family, and the
  Moon's position plus \<open>(1.5, 0, 0)\<close> for the Moon family.
\<close>

theorem fallback_positions:
  "calculateNewPosition ''lagrange'' ''nonexistent'' t s = (5, 0, 0)
   \<and> (type \<notin> {''lagrange'', ''earth'', ''moon''} \<longrightarrow>
        calculateNewPosition type orbit t s = (5, 0, 0))
   \<and> (orbit \<notin> set (orbitOptions ''lagrange'') \<longrightarrow>
        calculateNewPosition ''lagrange'' orbit t s = (5, 0, 0))
   \<and> (orbit \<notin> set (orbitOptions ''earth'') \<longrightarrow>
        calculateNewPosition ''earth'' orbit t s = (4, 0, 0))
   \<and> (orbit \<notin> set (orbitOptions ''moon'') \<longrightarrow>
        calculateNewPosition ''moon'' orbit t s =
          (fst (moonPosition t s) + 1.5, 0, snd (snd (moonPosition t s))))"
  by (simp add: pos_eval orbitOptions_def)

theorem fallback_positions_witness:
  "''none'' \<notin> {''lagrange'', ''earth'', ''moon''}
   \<and> ''x'' \<notin> set (orbitOptions ''lagrange'')
   \<and> ''x'' \<notin> set (orbitOptions ''earth'')
   \<and> ''x'' \<notin> set (orbitOptions ''moon'')
   \<and> calculateNewPosition ''none'' ''x'' 0 1 = (5, 0, 0)
   \<and> calculateNewPosition ''lagrange'' ''x'' 0 1 = (5, 0, 0)
   \<and> calculateNewPosition ''earth'' ''x'' 0 1 = (4, 0, 0)
   \<and> calculateNewPosition ''moon'' ''x'' 0 1 = (11.5, 0, 0)"
  using fallback_positions [of 0 1 "''none''" "''x''"]
  by (simp add: orbitOptions_def moonPosition_def BASE_ORBITAL_SPEED_def)

subsubsection \<open>Binary64 rounding\<close>

lemma rne_near: "\<bar>y - of_int m\<bar> < 1 / 2 \<Longrightarrow> rne y = m"
proof -
  assume a: "\<bar>y - of_int m\<bar> < 1 / 2"
  show ?thesis
  proof (cases "of_int m \<le> y")
    case True
    with a have "\<lfloor>y\<rfloor> = m"
      by (intro floor_unique) (auto simp: abs_if split: if_splits)
    with a True show ?thesis
      by (simp add: rne_def Let_def)
  next
    case False
    with a have "\<lfloor>y\<rfloor> = m - 1"
      by (intro floor_unique) (auto simp: abs_if split: if_splits)
    with a False show ?thesis
      by (simp add: rne_def Let_def)
  qed
qed

lemma rne_tie: "y = of_int m + 1 / 2 \<Longrightarrow> rne y = (if even m then m else m + 1)"
proof -
  assume y: "y = of_int m + 1 / 2"
  then have "\<lfloor>y\<rfloor> = m"
    by (intro floor_unique) simp_all
  with y show ?thesis
    by (simp add: rne_def Let_def)
qed

lemma rne_error: "\<bar>of_int (rne y) - y\<bar> \<le> 1 / 2"
proof -
  define f where "f = \<lfloor>y\<rfloor>"
  define d where "d = y - of_int f"
  have d: "0 \<le> d" "d < 1"
    unfolding d_def f_def by linarith+
  have y: "y = of_int f + d"
    by (simp add: d_def)
  have r: "rne y = (if d < 1 / 2 then f else if 1 / 2 < d then f + 1
                     else if even f then f else f + 1)"
    by (simp add: rne_def Let_def f_def d_def)
  have "of_int (rne y) - y =
          of_int (if d < 1 / 2 then f else if 1 / 2 < d then f + 1
                  else if even f then f else f + 1) - (of_int f + d)"
    by (simp only: r) (simp add: d_def)
  with d show ?thesis
    by (auto simp: abs_if split: if_splits)
qed

lemma ulp64_pos [simp]: "0 < ulp64 x"
  by (simp add: ulp64_def)

lemma round64_error_ulp: "\<bar>round64 x - x\<bar> \<le> ulp64 x / 2"
proof -
  have nz: "ulp64 x \<noteq> 0"
    by (rule less_imp_neq [symmetric]) (rule ulp64_pos)
  have "round64 x - x = (of_int (rne (x / ulp64 x)) - x / ulp64 x) * ulp64 x"
    using nz by (simp add: round64_def left_diff_distrib)
  then have "\<bar>round64 x - x\<bar> = \<bar>of_int (rne (x / ulp64 x)) - x / ulp64 x\<bar> * ulp64 x"
    by (simp only: abs_mult abs_of_pos [OF ulp64_pos])
  also have "\<dots> \<le> 1 / 2 * ulp64 x"
    by (rule mult_right_mono [OF rne_error less_imp_le [OF ulp64_pos]])
  finally show ?thesis
    by simp
qed

lemma exponent64_eqI:
  assumes "2 powi e \<le> \<bar>x\<bar>" and "\<bar>x\<bar> < 2 powi (e + 1)" and "- 1022 \<le> e"
  shows "exponent64 x = e"
proof -
  from assms(1) have pos: "0 < \<bar>x\<bar>"
    by (rule less_le_trans [OF zero_less_power_int, rotated]) simp
  then have nz: "x \<noteq> 0"
    by auto
  have p1: "(2::real) powr of_int e = 2 powi e"
    by (simp add: powr_real_of_int')
  have "(2::real) powr of_int (e + 1) = 2 powi (e + 1)"
    by (rule powr_real_of_int') simp_all
  then have p2: "(2::real) powr (of_int e + 1) = 2 powi (e + 1)"
    by simp
  have "of_int e \<le> log 2 \<bar>x\<bar>"
    using pos assms(1) by (simp add: le_log_iff p1)
  moreover have "log 2 \<bar>x\<bar> < of_int e + 1"
    using pos assms(2) by (simp add: log_less_iff p2)
  ultimately have "\<lfloor>log 2 \<bar>x\<bar>\<rfloor> = e"
    by (rule floor_unique)
  with nz assms(3) show ?thesis
    by (simp add: exponent64_def)
qed

lemma round64_nearI:
  fixes m e :: int
  assumes m: "2 ^ 52 < m" "m < 2 ^ 53" and e: "- 1022 \<le> e"
    and near: "\<bar>x - of_int m * 2 powi (e - 52)\<bar> < 2 powi (e - 53)"
  shows "round64 x = of_int m * 2 powi (e - 52)"
proof -
  define u :: real where "u = 2 powi (e - 52)"
  have u: "0 < u"
    by (simp add: u_def)
  have half: "2 powi (e - 53) = u / 2"
    by (simp add: u_def power_int_diff)
  have lo: "2 powi e = 2 ^ 52 * u"
    by (simp add: u_def power_int_diff)
  have hi: "2 powi (e + 1) = 2 ^ 53 * u"
    by (simp add: u_def power_int_diff power_int_add)
  from m have "(2 ^ 52 + 1 :: int) \<le> m" "m \<le> (2 ^ 53 - 1 :: int)"
    by simp_all
  then have "real_of_int (2 ^ 52 + 1) \<le> of_int m" "real_of_int m \<le> of_int (2 ^ 53 - 1)"
    by (simp_all only: of_int_le_iff)
  then have m': "(2 ^ 52 + 1 :: real) \<le> of_int m" "of_int m \<le> (2 ^ 53 - 1 :: real)"
    by simp_all
  from near have x: "of_int m * u - u / 2 < x" "x < of_int m * u + u / 2"
    unfolding half u_def [symmetric] by (auto simp: abs_if split: if_splits)
  from m'(1) u have "(2 ^ 52 + 1) * u \<le> of_int m * u"
    by (intro mult_right_mono) simp_all
  then have "2 ^ 52 * u + u \<le> of_int m * u"
    by (simp only: distrib_right mult_1)
  with x(1) u have xlo: "2 ^ 52 * u < x"
    by linarith
  from m'(2) u have "of_int m * u \<le> (2 ^ 53 - 1) * u"
    by (intro mult_right_mono) simp_all
  then have "of_int m * u \<le> 2 ^ 53 * u - u"
    by (simp only: left_diff_distrib mult_1)
  with x(2) u have xhi: "x < 2 ^ 53 * u"
    by linarith
  from u have "0 < 2 ^ 52 * u"
    by simp
  with xlo have xpos: "0 < x"
    by linarith
  have "exponent64 x = e"
    using xlo xhi xpos e by (intro exponent64_eqI) (simp_all add: lo hi)
  then have ulp: "ulp64 x = u"
    by (simp add: ulp64_def u_def)
  from x u have "\<bar>x / u - of_int m\<bar> < 1 / 2"
    by (auto simp: abs_if field_simps)
  then have "rne (x / u) = m"
    by (rule rne_near)
  then show ?thesis
    by (simp add: round64_def ulp u_def)
qed

lemma round64_tieI:
  fixes m e :: int
  assumes m: "2 ^ 52 \<le> m" "m < 2 ^ 53" and e: "- 1022 \<le> e"
    and tie: "x = (of_int m + 1 / 2) * 2 powi (e - 52)"
  shows "round64 x = of_int (if even m then m else m + 1) * 2 powi (e - 52)"
proof -
  define u :: real where "u = 2 powi (e - 52)"
  have u: "0 < u"
    by (simp add: u_def)
  have lo: "2 powi e = 2 ^ 52 * u"
    by (simp add: u_def power_int_diff)
  have hi: "2 powi (e + 1) = 2 ^ 53 * u"
    by (simp add: u_def power_int_diff power_int_add)
  from m have "(2 ^ 52 :: int) \<le> m" "m \<le> (2 ^ 53 - 1 :: int)"
    by simp_all
  then have "real_of_int (2 ^ 52) \<le> of_int m" "real_of_int m \<le> of_int (2 ^ 53 - 1)"
    by (simp_all only: of_int_le_iff)
  then have m': "(2 ^ 52 :: real) \<le> of_int m" "of_int m \<le> (2 ^ 53 - 1 :: real)"
    by simp_all
  have x: "x = (of_int m + 1 / 2) * u"
    by (simp add: tie u_def)
  from m'(1) u have "2 ^ 52 * u \<le> (of_int m + 1 / 2) * u"
    by (intro mult_right_mono) simp_all
  then have xlo: "2 ^ 52 * u \<le> x"
    by (simp add: x)
  from m'(2) u have "(of_int m + 1 / 2) * u < 2 ^ 53 * u"
    by (intro mult_strict_right_mono) simp_all
  then have xhi: "x < 2 ^ 53 * u"
    by (simp add: x)
  from u have "0 < 2 ^ 52 * u"
    by simp
  with xlo have xpos: "0 < x"
    by linarith
  have "exponent64 x = e"
    using xlo xhi xpos e by (intro exponent64_eqI) (simp_all add: lo hi)
  then have ulp: "ulp64 x = u"
    by (simp add: ulp64_def u_def)
  from u have "x / u = of_int m + 1 / 2"
    by (simp add: x)
  then have "rne (x / u) = (if even m then m else m + 1)"
    by (rule rne_tie)
  then show ?thesis
    by (simp only: round64_def ulp u_def)
qed

lemma sin_near:
  fixes a d h :: real
  assumes "\<bar>(\<Sum>m<9. sin_coeff m * a ^ m) - d\<bar> + inverse (fact 9) * \<bar>a\<bar> ^ 9 < h"
  shows "\<bar>sin a - d\<bar> < h"
proof -
  have "\<bar>sin a - (\<Sum>m<9. sin_coeff m * a ^ m)\<bar> \<le> inverse (fact 9) * \<bar>a\<bar> ^ 9"
    by (rule Maclaurin_sin_bound)
  with assms show ?thesis
    by linarith
qed

lemma round64_0 [simp]: "round64 0 = 0"
  by (simp add: round64_def rne_def)

text \<open>
  The operations of the \<^verbatim>\<open>llo_circular\<close> path at the clock reading 32 ms and the speed
  \<^verbatim>\<open>0.1\<close>, one rounding at a time. The two sines are within the seventh-order series
  of the argument by less than \<open>\<bar>a\<bar> ^ 9 / 9!\<close>, which places them in the rounding
  interval of the stated value.
\<close>

lemma B64: "round64 0.0001 = 7378697629483821 / 2 ^ 66"
  using round64_nearI [of 7378697629483821 "- 14" "0.0001"] by simp

lemma s64: "round64 0.1 = 7205759403792794 / 2 ^ 56"
  using round64_nearI [of 7205759403792794 "- 4" "0.1"] by simp

lemma tB64: "round64 (32 * (7378697629483821 / 2 ^ 66)) = 7378697629483821 / 2 ^ 61"
  using round64_nearI [of 7378697629483821 "- 9" "32 * (7378697629483821 / 2 ^ 66)"] by simp

lemma a64: "round64 (7378697629483821 / 2 ^ 61 * (7205759403792794 / 2 ^ 56))
              = 5902958103587057 / 2 ^ 64"
  using round64_nearI [of 5902958103587057 "- 12"
      "7378697629483821 / 2 ^ 61 * (7205759403792794 / 2 ^ 56)"] by simp

lemma angle64_32: "angle64 32 (round64 0.1) = 5902958103587057 / 2 ^ 64"
  by (simp only: angle64_def B64 s64 tB64 a64)

lemma sinA64: "Math_sin (5902958103587057 / 2 ^ 64) = 5902958002843239 / 2 ^ 64"
proof -
  have "\<bar>sin (5902958103587057 / 2 ^ 64 :: real) - 5902958002843239 * 2 powi (- 12 - 52)\<bar>
          < 2 powi (- 12 - 53)"
    by (rule sin_near)
       (simp add: lessThan_nat_numeral sin_coeff_def fact_numeral power_divide)
  then show ?thesis
    using round64_nearI [of 5902958002843239 "- 12" "sin (5902958103587057 / 2 ^ 64)"]
    by (simp add: Math_sin_def)
qed

lemma mz64: "round64 (10 * (5902958002843239 / 2 ^ 64)) = 7378697503554049 / 2 ^ 61"
  using round64_nearI [of 7378697503554049 "- 9" "10 * (5902958002843239 / 2 ^ 64)"] by simp

lemma la64: "round64 (5902958103587057 / 2 ^ 64 * 5) = 7378697629483821 / 2 ^ 62"
  using round64_nearI [of 7378697629483821 "- 10" "5902958103587057 / 2 ^ 64 * 5"] by simp

lemma sinL64: "Math_sin (7378697629483821 / 2 ^ 62) = 7378694481239902 / 2 ^ 62"
proof -
  have "\<bar>sin (7378697629483821 / 2 ^ 62 :: real) - 7378694481239902 * 2 powi (- 10 - 52)\<bar>
          < 2 powi (- 10 - 53)"
    by (rule sin_near)
       (simp add: lessThan_nat_numeral sin_coeff_def fact_numeral power_divide)
  then show ?thesis
    using round64_nearI [of 7378694481239902 "- 10" "sin (7378697629483821 / 2 ^ 62)"]
    by (simp add: Math_sin_def)
qed

lemma oz64: "round64 (7378694481239902 / 2 ^ 62 * 1.5) = 5534020860929926 / 2 ^ 61"
  using round64_tieI [of 5534020860929926 "- 9" "7378694481239902 / 2 ^ 62 * 1.5"] by simp

lemma z64: "round64 (7378697503554049 / 2 ^ 61 + 5534020860929926 / 2 ^ 61)
              = 6456359182241988 / 2 ^ 60"
  using round64_tieI [of 6456359182241987 "- 8"
      "7378697503554049 / 2 ^ 61 + 5534020860929926 / 2 ^ 61"] by simp

lemma cz64: "round64 (6456359182241988 / 2 ^ 60 - 5534020860929926 / 2 ^ 61)
               = 7378697503554050 / 2 ^ 61"
  using round64_nearI [of 7378697503554050 "- 9"
      "6456359182241988 / 2 ^ 60 - 5534020860929926 / 2 ^ 61"] by simp

lemma exponent64_le_3:
  assumes "\<bar>x\<bar> < 16"
  shows "exponent64 x \<le> 3"
proof (cases "x = 0")
  case True
  then show ?thesis
    by (simp add: exponent64_def)
next
  case False
  then have pos: "0 < \<bar>x\<bar>"
    by simp
  have "(2::real) powr 4 = 16"
    by (simp add: powr_numeral)
  with assms pos have "log 2 \<bar>x\<bar> < 4"
    by (simp add: log_less_iff)
  then have "\<lfloor>log 2 \<bar>x\<bar>\<rfloor> < 4"
    by (simp add: floor_less_iff)
  with False show ?thesis
    by (simp add: exponent64_def)
qed

lemma round64_error_16:
  assumes "\<bar>x\<bar> < 16"
  shows "\<bar>round64 x - x\<bar> \<le> 1 / 2 ^ 50"
proof -
  from assms have "exponent64 x - 52 \<le> - 49"
    using exponent64_le_3 [of x] by simp
  then have "ulp64 x \<le> 2 powi (- 49)"
    unfolding ulp64_def by (intro power_int_increasing) simp_all
  then have "ulp64 x / 2 \<le> 1 / 2 ^ 50"
    by simp
  with round64_error_ulp [of x] show ?thesis
    by linarith
qed

lemma round64_interval_16:
  assumes "- 16 < x" and "x < 16"
  shows "x - 1 / 1125899906842624 \<le> round64 x" and "round64 x \<le> x + 1 / 1125899906842624"
proof -
  from assms have "\<bar>x\<bar> < 16"
    by (simp add: abs_less_iff)
  then have "\<bar>round64 x - x\<bar> \<le> 1 / 2 ^ 50"
    by (rule round64_error_16)
  then have "round64 x - x \<le> 1 / 1125899906842624 \<and> - (round64 x - x) \<le> 1 / 1125899906842624"
    by (simp only: abs_le_iff) simp
  then show "x - 1 / 1125899906842624 \<le> round64 x" "round64 x \<le> x + 1 / 1125899906842624"
    by linarith+
qed

lemma add_sub_within:
  assumes "\<bar>m\<bar> \<le> 11" and "\<bar>d\<bar> \<le> 2"
  shows "\<bar>round64 (round64 (m + d) - d) - m\<bar> \<le> 2 / 2 ^ 50"
proof -
  from assms have b: "m \<le> 11 \<and> - m \<le> 11" "d \<le> 2 \<and> - d \<le> 2"
    by (simp_all only: abs_le_iff)
  then have "- 16 < m + d" "m + d < 16"
    by linarith+
  note p = round64_interval_16 [OF this]
  with b have "- 16 < round64 (m + d) - d" "round64 (m + d) - d < 16"
    by linarith+
  note c = round64_interval_16 [OF this]
  from p c have "round64 (round64 (m + d) - d) - m \<le> 2 / 1125899906842624
      \<and> - (round64 (round64 (m + d) - d) - m) \<le> 2 / 1125899906842624"
    by linarith
  then show ?thesis
    by (simp only: abs_le_iff) simp
qed

lemma scaled_unit_bounds:
  assumes "\<bar>v\<bar> \<le> 1"
  shows "\<bar>round64 (10 * round64 v)\<bar> \<le> 11" and "\<bar>round64 (round64 v * 1.5)\<bar> \<le> 2"
proof -
  from assms have b: "v \<le> 1 \<and> - v \<le> 1"
    by (simp only: abs_le_iff)
  then have "- 16 < v" "v < 16"
    by linarith+
  note r = round64_interval_16 [OF this]
  with b have "- 16 < 10 * round64 v" "10 * round64 v < 16"
    by linarith+
  note t = round64_interval_16 [OF this]
  from r b have "- 16 < round64 v * 1.5" "round64 v * 1.5 < 16"
    by linarith+
  note f = round64_interval_16 [OF this]
  from r b t have "round64 (10 * round64 v) \<le> 11 \<and> - round64 (10 * round64 v) \<le> 11"
    by linarith
  then show "\<bar>round64 (10 * round64 v)\<bar> \<le> 11"
    by (simp only: abs_le_iff)
  from r b f have "round64 (round64 v * 1.5) \<le> 2 \<and> - round64 (round64 v * 1.5) \<le> 2"
    by linarith
  then show "\<bar>round64 (round64 v * 1.5)\<bar> \<le> 2"
    by (simp only: abs_le_iff)
qed

text \<open>
  Claim C6, as stated, fails on the code: the two positions do not agree exactly. At the
  clock reading 32 ms and the speed \<^verbatim>\<open>0.1\<close> the Moon's \<open>z\<close> is
  \<open>7378697503554049 / 2 ^ 61\<close>; the orbit adds the offset
  \<open>5534020860929926 / 2 ^ 61\<close>, the sum falls halfway between two binary64 values and
  is rounded up; subtracting the offset again gives \<open>7378697503554050 / 2 ^ 61\<close>, one
  unit in the last place above the Moon's \<open>z\<close>.
\<close>

theorem llo_circular_centre_differs_in_binary64:
  "snd (snd (moonPosition64 32 (round64 0.1))) = 7378697503554049 / 2 ^ 61
   \<and> snd (snd (lloCircularOffset64 32 (round64 0.1))) = 5534020860929926 / 2 ^ 61
   \<and> snd (snd (lloCircularPosition64 32 (round64 0.1))) = 6456359182241988 / 2 ^ 60
   \<and> snd (snd (lloCircularCentre64 32 (round64 0.1))) = 7378697503554050 / 2 ^ 61
   \<and> lloCircularCentre64 32 (round64 0.1) \<noteq> moonPosition64 32 (round64 0.1)"
proof -
  have m: "snd (snd (moonPosition64 32 (round64 0.1))) = 7378697503554049 / 2 ^ 61"
    by (simp only: moonPosition64_def Let_def angle64_32 sinA64 mz64 snd_conv)
  have o: "snd (snd (lloCircularOffset64 32 (round64 0.1))) = 5534020860929926 / 2 ^ 61"
    by (simp only: lloCircularOffset64_def Let_def angle64_32 la64 sinL64 oz64 snd_conv)
  have p: "snd (snd (lloCircularPosition64 32 (round64 0.1))) = 6456359182241988 / 2 ^ 60"
    by (simp only: lloCircularPosition64_def Let_def angle64_32 la64 sinA64 sinL64 mz64
          oz64 z64 snd_conv)
  have "snd (snd (lloCircularCentre64 32 (round64 0.1)))
          = round64 (snd (snd (lloCircularPosition64 32 (round64 0.1)))
                     - snd (snd (lloCircularOffset64 32 (round64 0.1))))"
    by (simp add: lloCircularCentre64_def split: prod.splits)
  then have c: "snd (snd (lloCircularCentre64 32 (round64 0.1))) = 7378697503554050 / 2 ^ 61"
    by (simp only: p o cz64)
  have ne: "(7378697503554050 / 2 ^ 61 :: real) \<noteq> 7378697503554049 / 2 ^ 61"
    by simp
  have "snd (snd (lloCircularCentre64 32 (round64 0.1)))
          \<noteq> snd (snd (moonPosition64 32 (round64 0.1)))"
    unfolding m c by (rule ne)
  then have "lloCircularCentre64 32 (round64 0.1) \<noteq> moonPosition64 32 (round64 0.1)"
    by auto
  with m o p c show ?thesis
    by (simp only: simp_thms)
qed

text \<open>
  Claim C6, amended. For every clock reading up to \<open>2 ^ 53\<close> ms and every speed up to
  10, the Moon's position and the centre implied by the \<^verbatim>\<open>llo_circular\<close> position (the
  position minus its own loop offset) agree within floating tolerance: they are equal in
  exact arithmetic, both being derived from the same angle, and in binary64 they have the
  same \<open>y\<close> and differ in \<open>x\<close> and in \<open>z\<close> by at most \<open>2 / 2 ^ 50\<close>, the rounding of
  one addition and one subtraction.
\<close>

theorem llo_circular_centre_within_tolerance:
  assumes "\<bar>t\<bar> \<le> 2 ^ 53" and "\<bar>s\<bar> \<le> 10"
  shows "(let angle = t * BASE_ORBITAL_SPEED * s;
              (px, py, pz) = calculateNewPosition ''moon'' ''llo_circular'' t s
          in (px - cos (angle * 5) * 1.5, py - 0, pz - sin (angle * 5) * 1.5))
           = moonPosition t s
         \<and> (case lloCircularCentre64 t s of (cx, cy, cz) \<Rightarrow>
             case moonPosition64 t s of (mx, my, mz) \<Rightarrow>
               \<bar>cx - mx\<bar> \<le> 2 / 2 ^ 50 \<and> cy = my \<and> \<bar>cz - mz\<bar> \<le> 2 / 2 ^ 50)"
proof -
  define a where "a = angle64 t s"
  define l where "l = round64 (a * 5)"
  have x: "\<bar>round64 (round64 (round64 (10 * Math_cos a) + round64 (Math_cos l * 1.5))
                       - round64 (Math_cos l * 1.5)) - round64 (10 * Math_cos a)\<bar>
             \<le> 2 / 2 ^ 50"
    unfolding Math_cos_def by (intro add_sub_within scaled_unit_bounds) simp_all
  have z: "\<bar>round64 (round64 (round64 (10 * Math_sin a) + round64 (Math_sin l * 1.5))
                       - round64 (Math_sin l * 1.5)) - round64 (10 * Math_sin a)\<bar>
             \<le> 2 / 2 ^ 50"
    unfolding Math_sin_def by (intro add_sub_within scaled_unit_bounds) simp_all
  have real: "(let angle = t * BASE_ORBITAL_SPEED * s;
              (px, py, pz) = calculateNewPosition ''moon'' ''llo_circular'' t s
          in (px - cos (angle * 5) * 1.5, py - 0, pz - sin (angle * 5) * 1.5))
           = moonPosition t s"
    by (simp add: pos_eval)
  have "case lloCircularCentre64 t s of (cx, cy, cz) \<Rightarrow>
             case moonPosition64 t s of (mx, my, mz) \<Rightarrow>
               \<bar>cx - mx\<bar> \<le> 2 / 2 ^ 50 \<and> cy = my \<and> \<bar>cz - mz\<bar> \<le> 2 / 2 ^ 50"
    using x z
    by (simp add: lloCircularCentre64_def lloCircularPosition64_def lloCircularOffset64_def
        moonPosition64_def Let_def a_def l_def)
  with real show ?thesis
    by (simp only: simp_thms)
qed

theorem llo_circular_centre_within_tolerance_witness:
  "\<bar>32 :: real\<bar> \<le> 2 ^ 53 \<and> \<bar>round64 0.1\<bar> \<le> 10
   \<and> \<bar>snd (snd (lloCircularCentre64 32 (round64 0.1)))
        - snd (snd (moonPosition64 32 (round64 0.1)))\<bar> \<le> 2 / 2 ^ 50"
  using llo_circular_centre_within_tolerance [of 32 "round64 0.1"]
  by (auto simp: s64 split: prod.splits)

text \<open>
  Claim C7 (each of the six Earth-synchronous identifiers of the catalog has a distinct,
  non-constant trajectory) fails on the code: four of the six listed identifiers have no
  case in the position function, and all four stay at \<open>(4, 0, 0)\<close> at every time and
  speed.
\<close>

theorem unimplemented_earth_orbits_constant:
  "set [''gso_mid'', ''qzo_8'', ''qzo_asym'', ''molniya''] \<subseteq> set (orbitOptions ''earth'')
   \<and> calculateNewPosition ''earth'' ''gso_mid'' t s = (4, 0, 0)
   \<and> calculateNewPosition ''earth'' ''qzo_8'' t s = (4, 0, 0)
   \<and> calculateNewPosition ''earth'' ''qzo_asym'' t s = (4, 0, 0)
   \<and> calculateNewPosition ''earth'' ''molniya'' t s = (4, 0, 0)"
  by (simp add: pos_eval orbitOptions_def)

subsubsection \<open>Trail mesh builder: what the loops compute\<close>

lemma js_or_length_nonzero: "js_or (length_v v) 1 \<noteq> 0"
  by (simp add: js_or_def)

lemma normalize_Some: "normalize v = Some (normalized v)"
  by (simp add: normalize_def normalized_def divideScalar_def js_or_length_nonzero)

lemma update_six:
  assumes "length A = i * 6"
  shows "(A @ replicate (6 * Suc m) (0::real))
           [i * 6 := a, i * 6 + 1 := b, i * 6 + 2 := c, i * 6 + 3 := d, i * 6 + 4 := e,
            i * 6 + 5 := f]
         = (A @ [a, b, c, d, e, f]) @ replicate (6 * m) 0"
proof -
  have "replicate (6 * Suc m) (0::real) = [0, 0, 0, 0, 0, 0] @ replicate (6 * m) 0"
    by (simp add: replicate_add [symmetric] del: replicate_Suc replicate.simps)
       (simp add: numeral_eq_Suc)
  then show ?thesis
    using assms by (simp add: list_update_append)
qed

lemma segmentBody_eq:
  assumes "i < length colors" and "i < length lineWidths"
  shows "segmentBody points colors lineWidths i bufs =
           Some ((fst bufs)
                   [i * 6 := segmentPositions points lineWidths i ! 0,
                    i * 6 + 1 := segmentPositions points lineWidths i ! 1,
                    i * 6 + 2 := segmentPositions points lineWidths i ! 2,
                    i * 6 + 3 := segmentPositions points lineWidths i ! 3,
                    i * 6 + 4 := segmentPositions points lineWidths i ! 4,
                    i * 6 + 5 := segmentPositions points lineWidths i ! 5],
                 (snd bufs)
                   [i * 6 := segmentColors colors i ! 0,
                    i * 6 + 1 := segmentColors colors i ! 1,
                    i * 6 + 2 := segmentColors colors i ! 2,
                    i * 6 + 3 := segmentColors colors i ! 3,
                    i * 6 + 4 := segmentColors colors i ! 4,
                    i * 6 + 5 := segmentColors colors i ! 5])"
  using assms
  by (cases "points ! i"; cases "points ! (i + 1)")
     (simp add: segmentBody_def normalize_Some segmentPositions_def segmentColors_def
        segmentPerpendicular_def Let_def)

lemma six_elements:
  assumes "length xs = 6"
  shows "[xs ! 0, xs ! 1, xs ! 2, xs ! 3, xs ! 4, xs ! 5] = xs"
proof -
  from assms obtain a b c d e f where "xs = [a, b, c, d, e, f]"
    by (auto simp: numeral_eq_Suc length_Suc_conv)
  then show ?thesis
    by simp
qed

lemma length_segmentPositions [simp]: "length (segmentPositions points lineWidths i) = 6"
  by (cases "points ! i") (simp add: segmentPositions_def Let_def)

lemma length_segmentColors [simp]: "length (segmentColors colors i) = 6"
  by (simp add: segmentColors_def)

lemma segmentBody_step:
  assumes "length A = i * 6" and "length B = i * 6"
    and "i < length colors" and "i < length lineWidths"
  shows "segmentBody points colors lineWidths i
           (A @ replicate (6 * Suc m) 0, B @ replicate (6 * Suc m) 0)
         = Some ((A @ segmentPositions points lineWidths i) @ replicate (6 * m) 0,
                 (B @ segmentColors colors i) @ replicate (6 * m) 0)"
  by (simp only: segmentBody_eq [OF assms(3,4)] fst_conv snd_conv
        update_six [OF assms(1)] update_six [OF assms(2)] six_elements
        length_segmentPositions length_segmentColors)

lemma forLoop_segmentBody:
  assumes "n \<le> length colors" and "n \<le> length lineWidths"
  shows "j \<le> n \<Longrightarrow>
         forLoop (segmentBody points colors lineWidths) j n
           (concat (map (segmentPositions points lineWidths) [0..<j])
              @ replicate (6 * (n - j + m)) 0,
            concat (map (segmentColors colors) [0..<j]) @ replicate (6 * (n - j + m)) 0)
         = Some (concat (map (segmentPositions points lineWidths) [0..<n])
                   @ replicate (6 * m) 0,
                 concat (map (segmentColors colors) [0..<n]) @ replicate (6 * m) 0)"
proof (induction "n - j" arbitrary: j)
  case 0
  then show ?case
    by (simp add: forLoop.simps)
next
  case (Suc d)
  then have j: "j < n" and d: "d = n - Suc j" and rest: "n - j + m = Suc (n - Suc j + m)"
    by simp_all
  have len: "length (concat (map (segmentPositions points lineWidths) [0..<j])) = j * 6"
    "length (concat (map (segmentColors colors) [0..<j])) = j * 6"
    by (simp_all add: length_concat comp_def sum_list_triv)
  from j assms have bounds: "j < length colors" "j < length lineWidths"
    by simp_all
  have step: "segmentBody points colors lineWidths j
           (concat (map (segmentPositions points lineWidths) [0..<j])
              @ replicate (6 * (n - j + m)) 0,
            concat (map (segmentColors colors) [0..<j]) @ replicate (6 * (n - j + m)) 0)
        = Some (concat (map (segmentPositions points lineWidths) [0..<Suc j])
                  @ replicate (6 * (n - Suc j + m)) 0,
                concat (map (segmentColors colors) [0..<Suc j])
                  @ replicate (6 * (n - Suc j + m)) 0)"
    unfolding rest segmentBody_step [OF len bounds] by simp
  from j have "Suc j \<le> n"
    by simp
  from Suc.hyps(1) [OF d this] j step show ?case
    by (subst forLoop.simps) simp
qed

lemma forLoop_indexBody:
  "j \<le> n \<Longrightarrow>
   forLoop indexBody j n (concat (map segmentIndices [0..<j]))
     = Some (concat (map segmentIndices [0..<n]))"
proof (induction "n - j" arbitrary: j)
  case 0
  then show ?case
    by (simp add: forLoop.simps)
next
  case (Suc d)
  then have j: "j < n" and d: "d = n - Suc j"
    by simp_all
  have step: "indexBody j (concat (map segmentIndices [0..<j]))
                = Some (concat (map segmentIndices [0..<Suc j]))"
    by (simp add: indexBody_def segmentIndices_def Let_def)
  from j have "Suc j \<le> n"
    by simp
  from Suc.hyps(1) [OF d this] j step show ?case
    by (subst forLoop.simps) simp
qed

lemma generateTrailGeometry_eq:
  assumes "length points - 1 \<le> length colors" and "length points - 1 \<le> length lineWidths"
    and "points \<noteq> []"
  shows "generateTrailGeometry points colors lineWidths =
           Some \<lparr>positions =
                    concat (map (segmentPositions points lineWidths) [0..<length points - 1])
                      @ replicate 6 0,
                 vertexColors =
                    concat (map (segmentColors colors) [0..<length points - 1])
                      @ replicate 6 0,
                 indices = concat (map segmentIndices [0..<length points - 1])\<rparr>"
proof -
  from assms(3) have n: "length points * 6 = 6 * (length points - 1 - 0 + 1)"
    by (cases points) simp_all
  have "forLoop (segmentBody points colors lineWidths) 0 (length points - 1)
          (replicate (length points * 6) 0, replicate (length points * 6) 0)
        = Some (concat (map (segmentPositions points lineWidths) [0..<length points - 1])
                  @ replicate (6 * 1) 0,
                concat (map (segmentColors colors) [0..<length points - 1])
                  @ replicate (6 * 1) 0)"
    using forLoop_segmentBody [OF assms(1,2), of 0 points 1] unfolding n by simp
  moreover have "forLoop indexBody 0 (length points - 1) []
        = Some (concat (map segmentIndices [0..<length points - 1]))"
    using forLoop_indexBody [of 0 "length points - 1"] by simp
  ultimately show ?thesis
    by (simp add: generateTrailGeometry_def)
qed

lemma concat_blocks_nth:
  assumes "\<And>j. length (f j) = b" and "i < n" and "k < b"
  shows "concat (map f [0..<n]) ! (i * b + k) = f i ! k"
  using assms(2)
proof (induction n)
  case 0
  then show ?case by simp
next
  case (Suc n)
  have len: "length (concat (map f [0..<n])) = n * b"
    by (simp add: length_concat comp_def assms(1) sum_list_triv)
  show ?case
  proof (cases "i < n")
    case True
    then have "Suc i \<le> n"
      by simp
    then have "Suc i * b \<le> n * b"
      by (rule mult_le_mono1)
    with assms(3) have "i * b + k < n * b"
      by simp
    with Suc.IH [OF True] len show ?thesis
      by (simp add: nth_append)
  next
    case False
    with Suc.prems have "i = n"
      by simp
    with len show ?thesis
      by (simp add: nth_append)
  qed
qed

lemma positions_nth:
  assumes "i < n" and "k < 6" and "idx = i * 6 + k"
  shows "(concat (map (segmentPositions points lineWidths) [0..<n]) @ rest) ! idx
           = segmentPositions points lineWidths i ! k"
proof -
  from assms(1) have "Suc i * 6 \<le> n * 6"
    by simp
  with assms(2) have "i * 6 + k < length (concat (map (segmentPositions points lineWidths) [0..<n]))"
    by (simp add: length_concat comp_def sum_list_triv)
  then show ?thesis
    using concat_blocks_nth [of "segmentPositions points lineWidths" 6 i n k] assms
    by (simp add: nth_append)
qed

lemma vertexAt_segment:
  assumes "i < n"
  shows "vertexAt (concat (map (segmentPositions points lineWidths) [0..<n]) @ rest) (2 * i)
           = (segmentPositions points lineWidths i ! 0,
              segmentPositions points lineWidths i ! 1,
              segmentPositions points lineWidths i ! 2)"
    and "vertexAt (concat (map (segmentPositions points lineWidths) [0..<n]) @ rest) (2 * i + 1)
           = (segmentPositions points lineWidths i ! 3,
              segmentPositions points lineWidths i ! 4,
              segmentPositions points lineWidths i ! 5)"
  unfolding vertexAt_def prod.inject
  by (intro conjI; rule positions_nth [OF assms]; simp)+

lemma vertexAt_leading:
  assumes "i < n"
  shows "vertexAt (concat (map (segmentPositions points lineWidths) [0..<n]) @ rest) (2 * i)
           = (case points ! i of (c0, c1, c2) \<Rightarrow>
                let p = segmentPerpendicular (points ! i) (points ! (i + 1));
                    w = lineWidths ! i * 0.1
                in (c0 + vec_x p * w, c1, c2 + vec_z p * w))"
    and "vertexAt (concat (map (segmentPositions points lineWidths) [0..<n]) @ rest) (2 * i + 1)
           = (case points ! i of (c0, c1, c2) \<Rightarrow>
                let p = segmentPerpendicular (points ! i) (points ! (i + 1));
                    w = lineWidths ! i * 0.1
                in (c0 - vec_x p * w, c1, c2 - vec_z p * w))"
  unfolding vertexAt_segment [OF assms]
  by (cases "points ! i"; simp add: segmentPositions_def Let_def)+

lemma segmentPerpendicular_vertical:
  "segmentPerpendicular (c0, c1, c2) (c0, n1, c2) = Vector3 0 0 0"
  by (simp add: segmentPerpendicular_def normalized_def multiplyScalar_def length_v_def
      js_or_def Let_def)

lemma segmentPerpendicular_horizontal:
  assumes "n0 \<noteq> c0 \<or> n2 \<noteq> c2"
  shows "segmentPerpendicular (c0, c1, c2) (n0, n1, n2) =
           Vector3 (- (n2 - c2) / sqrt ((n0 - c0)\<^sup>2 + (n2 - c2)\<^sup>2)) 0
                   ((n0 - c0) / sqrt ((n0 - c0)\<^sup>2 + (n2 - c2)\<^sup>2))"
proof -
  define a b c where "a = n0 - c0" and "b = n1 - c1" and "c = n2 - c2"
  define L where "L = sqrt (a * a + b * b + c * c)"
  define h where "h = sqrt (a\<^sup>2 + c\<^sup>2)"
  from assms have ac: "a \<noteq> 0 \<or> c \<noteq> 0"
    by (simp add: a_def c_def)
  then have "0 < a\<^sup>2 + c\<^sup>2"
    by (metis add_pos_nonneg add_nonneg_pos zero_less_power2 zero_le_power2)
  then have h: "0 < h"
    by (simp add: h_def)
  have "a\<^sup>2 + c\<^sup>2 \<le> a * a + b * b + c * c"
    by (simp add: power2_eq_square)
  with \<open>0 < a\<^sup>2 + c\<^sup>2\<close> have L: "0 < L"
    by (simp add: L_def)
  have dir: "normalized (Vector3 a b c) = Vector3 (a * (1 / L)) (b * (1 / L)) (c * (1 / L))"
    using L by (simp add: normalized_def multiplyScalar_def length_v_def js_or_def L_def)
  have "(- (c * (1 / L))) * (- (c * (1 / L))) + 0 * 0 + a * (1 / L) * (a * (1 / L))
          = (a\<^sup>2 + c\<^sup>2) / L\<^sup>2"
    by (simp add: power2_eq_square add_divide_distrib)
  then have len: "length_v (Vector3 (- (c * (1 / L))) 0 (a * (1 / L))) = h / L"
    using L by (simp add: length_v_def h_def real_sqrt_divide)
  from h L have "h / L \<noteq> 0"
    by simp
  with len have "normalized (Vector3 (- (c * (1 / L))) 0 (a * (1 / L)))
          = Vector3 (- (c * (1 / L)) * (1 / (h / L))) (0 * (1 / (h / L)))
              (a * (1 / L) * (1 / (h / L)))"
    by (simp add: normalized_def multiplyScalar_def js_or_def)
  also have "\<dots> = Vector3 (- c / h) 0 (a / h)"
    using h L by (simp add: field_simps)
  finally have "normalized (Vector3 (- (c * (1 / L))) 0 (a * (1 / L)))
                  = Vector3 (- c / h) 0 (a / h)" .
  with dir show ?thesis
    by (simp add: segmentPerpendicular_def Let_def a_def b_def c_def h_def)
qed

lemma cross_y_nonzero:
  assumes "u2 * v0 - u0 * v2 \<noteq> 0"
  shows "cross (u0, u1, u2) (v0, v1, v2) \<noteq> (0, 0, 0)"
  using assms by (simp add: cross_def)

lemma ribbon_triangles_nonzero:
  fixes x0 y0 z0 x1 y1 z1 x2 y2 z2 w :: real
  assumes col: "(z1 - z0) * (x2 - x1) = (x1 - x0) * (z2 - z1)"
    and h1: "x1 \<noteq> x0 \<or> z1 \<noteq> z0"
    and h2: "x2 \<noteq> x1 \<or> z2 \<noteq> z1"
    and w: "w \<noteq> 0"
  defines "h \<equiv> sqrt ((x1 - x0)\<^sup>2 + (z1 - z0)\<^sup>2)"
    and "h' \<equiv> sqrt ((x2 - x1)\<^sup>2 + (z2 - z1)\<^sup>2)"
  shows "\<not> zeroArea (x0 + (- (z1 - z0) / h) * w, y0, z0 + ((x1 - x0) / h) * w)
                     (x0 - (- (z1 - z0) / h) * w, y0, z0 - ((x1 - x0) / h) * w)
                     (x1 + (- (z2 - z1) / h') * w, y1, z1 + ((x2 - x1) / h') * w)"
    and "\<not> zeroArea (x1 + (- (z2 - z1) / h') * w, y1, z1 + ((x2 - x1) / h') * w)
                     (x0 - (- (z1 - z0) / h) * w, y0, z0 - ((x1 - x0) / h) * w)
                     (x1 - (- (z2 - z1) / h') * w, y1, z1 - ((x2 - x1) / h') * w)"
proof -
  define a c a' c' where "a = x1 - x0" and "c = z1 - z0" and "a' = x2 - x1" and "c' = z2 - z1"
  define P R Q S where "P = - c / h" and "R = a / h" and "Q = - c' / h'" and "S = a' / h'"
  have col': "c * a' = a * c'"
    using col by (simp add: a_def c_def a'_def c'_def)
  from h1 have "a \<noteq> 0 \<or> c \<noteq> 0"
    by (simp add: a_def c_def)
  then have sq: "0 < a\<^sup>2 + c\<^sup>2"
    by (metis add_pos_nonneg add_nonneg_pos zero_less_power2 zero_le_power2)
  from h2 have "a' \<noteq> 0 \<or> c' \<noteq> 0"
    by (simp add: a'_def c'_def)
  then have sq': "0 < a'\<^sup>2 + c'\<^sup>2"
    by (metis add_pos_nonneg add_nonneg_pos zero_less_power2 zero_le_power2)
  have h: "0 < h" and hh: "h * h = a\<^sup>2 + c\<^sup>2"
    using sq by (simp_all add: h_def a_def c_def)
  have h': "0 < h'" and hh': "h' * h' = a'\<^sup>2 + c'\<^sup>2"
    using sq' by (simp_all add: h'_def a'_def c'_def)
  have e1: "R * a - P * c = h"
  proof -
    have "R * a - P * c = (a\<^sup>2 + c\<^sup>2) / h"
      by (simp add: R_def P_def power2_eq_square add_divide_distrib)
    also have "\<dots> = h"
      using h hh by (simp add: field_simps)
    finally show ?thesis .
  qed
  have e2: "R * Q - P * S = 0"
  proof -
    have "R * Q - P * S = (c * a' - a * c') / (h * h')"
      by (simp add: R_def P_def Q_def S_def diff_divide_distrib)
    with col' show ?thesis
      by simp
  qed
  have dot: "a * a' + c * c' \<noteq> 0"
  proof
    assume z: "a * a' + c * c' = 0"
    from sq have ne: "a\<^sup>2 + c\<^sup>2 \<noteq> 0"
      by (rule less_imp_neq [symmetric])
    have "a' * (a\<^sup>2 + c\<^sup>2) = a * (a * a' + c * c') + c * (c * a' - a * c')"
      by (simp add: power2_eq_square algebra_simps)
    also have "\<dots> = 0"
      by (simp only: z col') simp
    finally have "a' = 0"
      using ne by (metis mult_eq_0_iff)
    moreover have "c' * (a\<^sup>2 + c\<^sup>2) = c * (a * a' + c * c') - a * (c * a' - a * c')"
      by (simp add: power2_eq_square algebra_simps)
    then have "c' * (a\<^sup>2 + c\<^sup>2) = 0"
      by (simp only: z col') simp
    then have "c' = 0"
      using ne by (metis mult_eq_0_iff)
    ultimately show False
      using \<open>a' \<noteq> 0 \<or> c' \<noteq> 0\<close> by simp
  qed
  have e3: "c * Q - a * S \<noteq> 0"
  proof -
    have "c * Q - a * S = - (a * a' + c * c') / h'"
      by (simp add: Q_def S_def diff_divide_distrib algebra_simps)
    with dot h' show ?thesis
      by simp
  qed
  have y1: "(- 2 * R * w) * (a + Q * w - P * w) - (- 2 * P * w) * (c + S * w - R * w)
              = - 2 * w * (R * a - P * c + w * (R * Q - P * S))"
    by (simp add: algebra_simps)
  have y1': "(- 2 * R * w) * (a + Q * w - P * w) - (- 2 * P * w) * (c + S * w - R * w) \<noteq> 0"
    unfolding y1 e1 e2 using w h by simp
  have y2: "(- c - R * w - S * w) * (- 2 * Q * w) - (- a - P * w - Q * w) * (- 2 * S * w)
              = 2 * w * (c * Q - a * S + w * (R * Q - P * S))"
    by (simp add: algebra_simps)
  have y2': "(- c - R * w - S * w) * (- 2 * Q * w) - (- a - P * w - Q * w) * (- 2 * S * w) \<noteq> 0"
    unfolding y2 e2 using w e3 by simp
  have d1: "sub3 (x0 - P * w, y0, z0 - R * w) (x0 + P * w, y0, z0 + R * w)
              = (- 2 * P * w, 0, - 2 * R * w)"
    by (simp add: sub3_def)
  have d2: "sub3 (x1 + Q * w, y1, z1 + S * w) (x0 + P * w, y0, z0 + R * w)
              = (a + Q * w - P * w, y1 - y0, c + S * w - R * w)"
    by (simp add: sub3_def a_def c_def)
  have d3: "sub3 (x0 - P * w, y0, z0 - R * w) (x1 + Q * w, y1, z1 + S * w)
              = (- a - P * w - Q * w, y0 - y1, - c - R * w - S * w)"
    by (simp add: sub3_def a_def c_def)
  have d4: "sub3 (x1 - Q * w, y1, z1 - S * w) (x1 + Q * w, y1, z1 + S * w)
              = (- 2 * Q * w, 0, - 2 * S * w)"
    by (simp add: sub3_def)
  have t1: "\<not> zeroArea (x0 + P * w, y0, z0 + R * w) (x0 - P * w, y0, z0 - R * w)
              (x1 + Q * w, y1, z1 + S * w)"
    unfolding zeroArea_def d1 d2 by (rule cross_y_nonzero) (rule y1')
  have t2: "\<not> zeroArea (x1 + Q * w, y1, z1 + S * w) (x0 - P * w, y0, z0 - R * w)
              (x1 - Q * w, y1, z1 - S * w)"
    unfolding zeroArea_def d3 d4 by (rule cross_y_nonzero) (rule y2')
  from t1 show "\<not> zeroArea (x0 + (- (z1 - z0) / h) * w, y0, z0 + ((x1 - x0) / h) * w)
                     (x0 - (- (z1 - z0) / h) * w, y0, z0 - ((x1 - x0) / h) * w)
                     (x1 + (- (z2 - z1) / h') * w, y1, z1 + ((x2 - x1) / h') * w)"
    unfolding P_def R_def Q_def S_def a_def c_def a'_def c'_def .
  from t2 show "\<not> zeroArea (x1 + (- (z2 - z1) / h') * w, y1, z1 + ((x2 - x1) / h') * w)
                     (x0 - (- (z1 - z0) / h) * w, y0, z0 - ((x1 - x0) / h) * w)
                     (x1 - (- (z2 - z1) / h') * w, y1, z1 - ((x2 - x1) / h') * w)"
    unfolding P_def R_def Q_def S_def a_def c_def a'_def c'_def .
qed

lemma length_concat_positions [simp]:
  "length (concat (map (segmentPositions points lineWidths) [0..<n])) = n * 6"
  by (simp add: length_concat comp_def sum_list_triv)

lemma length_concat_colors [simp]:
  "length (concat (map (segmentColors colors) [0..<n])) = n * 6"
  by (simp add: length_concat comp_def sum_list_triv)

lemma length_segmentIndices [simp]: "length (segmentIndices i) = 6"
  by (simp add: segmentIndices_def)

lemma length_concat_indices [simp]:
  "length (concat (map segmentIndices [0..<n])) = n * 6"
  by (simp add: length_concat comp_def sum_list_triv)

lemma vertexAt_trailing:
  assumes "length A = m * 6"
  shows "vertexAt (A @ replicate 6 0) (2 * m) = (0, 0, 0)"
    and "vertexAt (A @ replicate 6 0) (2 * m + 1) = (0, 0, 0)"
  using assms by (simp_all add: vertexAt_def nth_append)

lemma generateTrailGeometry_empty:
  "generateTrailGeometry [] colors lineWidths =
     Some \<lparr>positions = [], vertexColors = [], indices = []\<rparr>"
  by (simp add: generateTrailGeometry_def forLoop.simps)

subsubsection \<open>Trail mesh builder: claims\<close>

lemmas mesh_eval = trailGeometry_def generateTrailGeometry_def forLoop.simps segmentBody_def
  normalize_def divideScalar_def js_or_def length_v_def multiplyScalar_def
  multiplyScalar_c_def indexBody_def numeral_eq_Suc Let_def

lemma collinearTrail_geometry:
  "trailGeometry (Color 1 1 1) collinearTrail = Some collinearGeometry"
  by (simp add: collinearTrail_def collinearGeometry_def mesh_eval)

text \<open>
  Claim C8, as stated, fails on the code: for three collinear samples with opacity 1 the
  builder emits 6 vertices and 12 indices, not 6, and the last triangle, with the vertices
  4, 3 and 5, has zero area although the three positions are pairwise distinct.
\<close>

theorem collinear_samples_twelve_indices:
  "trailGeometry (Color 1 1 1) collinearTrail = Some collinearGeometry
   \<and> length collinearTrail = 3
   \<and> length (positions collinearGeometry) = 6 * 3
   \<and> length (indices collinearGeometry) = 12
   \<and> drop 9 (indices collinearGeometry) = [4, 3, 5]
   \<and> zeroArea (vertexAt (positions collinearGeometry) 4)
        (vertexAt (positions collinearGeometry) 3) (vertexAt (positions collinearGeometry) 5)"
  by (simp add: collinearTrail_def collinearGeometry_def mesh_eval
      vertexAt_def zeroArea_def cross_def sub3_def)

text \<open>
  Claim C8, amended. For three samples with opacity 1 the builder emits 6 vertices (18
  coordinates, 18 colour components) and 12 indices, two triangles for each of the two
  segments. When the samples are collinear, the second differs from the third, and the
  first segment is not vertical, the two triangles of the first segment have non-zero
  area. Nothing is said about the area of the triangles of the last segment.
\<close>

theorem three_collinear_samples_mesh:
  assumes "opacity s0 = 1" and "opacity s1 = 1" and "opacity s2 = 1"
  shows "\<exists>g. trailGeometry color [s0, s1, s2] = Some g
           \<and> length (positions g) = 6 * 3
           \<and> length (vertexColors g) = 6 * 3
           \<and> indices g = [0, 1, 2, 2, 1, 3, 2, 3, 4, 4, 3, 5]
           \<and> (cross (sub3 (position s1) (position s0)) (sub3 (position s2) (position s1))
                  = (0, 0, 0)
                \<and> position s1 \<noteq> position s2
                \<and> (fst (position s0) \<noteq> fst (position s1)
                    \<or> snd (snd (position s0)) \<noteq> snd (snd (position s1)))
                \<longrightarrow> \<not> zeroArea (vertexAt (positions g) 0) (vertexAt (positions g) 1)
                                  (vertexAt (positions g) 2)
                    \<and> \<not> zeroArea (vertexAt (positions g) 2) (vertexAt (positions g) 1)
                                  (vertexAt (positions g) 3))"
proof -
  obtain x0 y0 z0 where p0: "position s0 = (x0, y0, z0)"
    by (cases "position s0")
  obtain x1 y1 z1 where p1: "position s1 = (x1, y1, z1)"
    by (cases "position s1")
  obtain x2 y2 z2 where p2: "position s2 = (x2, y2, z2)"
    by (cases "position s2")
  let ?points = "[(x0, y0, z0), (x1, y1, z1), (x2, y2, z2)]"
  let ?colors = "[multiplyScalar_c color 1, multiplyScalar_c color 1, multiplyScalar_c color 1]"
  let ?widths = "[1, 1, 1 :: real]"
  let ?buf = "concat (map (segmentPositions ?points ?widths) [0..<2]) @ replicate 6 (0::real)"
  let ?g = "\<lparr>positions = ?buf,
             vertexColors = concat (map (segmentColors ?colors) [0..<2]) @ replicate 6 0,
             indices = concat (map segmentIndices [0..<2])\<rparr>"
  have "generateTrailGeometry ?points ?colors ?widths =
          Some \<lparr>positions =
                  concat (map (segmentPositions ?points ?widths) [0..<length ?points - 1])
                    @ replicate 6 0,
                vertexColors =
                  concat (map (segmentColors ?colors) [0..<length ?points - 1])
                    @ replicate 6 0,
                indices = concat (map segmentIndices [0..<length ?points - 1])\<rparr>"
    by (rule generateTrailGeometry_eq) simp_all
  moreover have two: "length ?points - 1 = 2"
    by simp
  ultimately have "generateTrailGeometry ?points ?colors ?widths = Some ?g"
    by (simp only: two)
  then have g: "trailGeometry color [s0, s1, s2] = Some ?g"
    using assms by (simp add: trailGeometry_def p0 p1 p2)
  have upt2: "[0..<2] = [0, 1]"
    by (simp add: numeral_eq_Suc)
  have idx: "indices ?g = [0, 1, 2, 2, 1, 3, 2, 3, 4, 4, 3, 5]"
    by (simp add: upt2 segmentIndices_def)
  have lens: "length (positions ?g) = 6 * 3" "length (vertexColors ?g) = 6 * 3"
    by simp_all
  have tri: "\<not> zeroArea (vertexAt ?buf 0) (vertexAt ?buf 1) (vertexAt ?buf 2)
             \<and> \<not> zeroArea (vertexAt ?buf 2) (vertexAt ?buf 1) (vertexAt ?buf 3)"
    if col: "cross (sub3 (x1, y1, z1) (x0, y0, z0)) (sub3 (x2, y2, z2) (x1, y1, z1)) = (0, 0, 0)"
      and ne: "(x1, y1, z1) \<noteq> (x2, y2, z2)"
      and nv: "x0 \<noteq> x1 \<or> z0 \<noteq> z1"
  proof -
    define h where "h = sqrt ((x1 - x0)\<^sup>2 + (z1 - z0)\<^sup>2)"
    define h' where "h' = sqrt ((x2 - x1)\<^sup>2 + (z2 - z1)\<^sup>2)"
    from col have cx: "(y1 - y0) * (z2 - z1) - (z1 - z0) * (y2 - y1) = 0"
      and cy: "(z1 - z0) * (x2 - x1) - (x1 - x0) * (z2 - z1) = 0"
      and cz: "(x1 - x0) * (y2 - y1) - (y1 - y0) * (x2 - x1) = 0"
      by (simp_all add: cross_def sub3_def)
    from nv have h1: "x1 \<noteq> x0 \<or> z1 \<noteq> z0"
      by auto
    have h2: "x2 \<noteq> x1 \<or> z2 \<noteq> z1"
    proof (rule ccontr)
      assume "\<not> (x2 \<noteq> x1 \<or> z2 \<noteq> z1)"
      then have eq: "x2 = x1" "z2 = z1"
        by simp_all
      with ne have "y2 - y1 \<noteq> 0"
        by simp
      with cx cz eq have "z1 - z0 = 0" "x1 - x0 = 0"
        by simp_all
      with h1 show False
        by simp
    qed
    from cy have col': "(z1 - z0) * (x2 - x1) = (x1 - x0) * (z2 - z1)"
      by simp
    have perp0: "segmentPerpendicular (x0, y0, z0) (x1, y1, z1)
                   = Vector3 (- (z1 - z0) / h) 0 ((x1 - x0) / h)"
      unfolding h_def using h1 by (rule segmentPerpendicular_horizontal)
    have perp1: "segmentPerpendicular (x1, y1, z1) (x2, y2, z2)
                   = Vector3 (- (z2 - z1) / h') 0 ((x2 - x1) / h')"
      unfolding h'_def using h2 by (rule segmentPerpendicular_horizontal)
    have v0: "vertexAt ?buf 0 =
                (x0 + (- (z1 - z0) / h) * (1 / 10), y0, z0 + ((x1 - x0) / h) * (1 / 10))"
      using vertexAt_leading(1) [of 0 2 ?points ?widths "replicate 6 0"]
      by (simp add: perp0)
    have v1: "vertexAt ?buf 1 =
                (x0 - (- (z1 - z0) / h) * (1 / 10), y0, z0 - ((x1 - x0) / h) * (1 / 10))"
      using vertexAt_leading(2) [of 0 2 ?points ?widths "replicate 6 0"]
      by (simp add: perp0)
    have v2: "vertexAt ?buf 2 =
                (x1 + (- (z2 - z1) / h') * (1 / 10), y1, z1 + ((x2 - x1) / h') * (1 / 10))"
      using vertexAt_leading(1) [of 1 2 ?points ?widths "replicate 6 0"]
      by (simp add: perp1)
    have v3: "vertexAt ?buf 3 =
                (x1 - (- (z2 - z1) / h') * (1 / 10), y1, z1 - ((x2 - x1) / h') * (1 / 10))"
      using vertexAt_leading(2) [of 1 2 ?points ?widths "replicate 6 0"]
      by (simp add: perp1 numeral_3_eq_3)
    have w: "(1 / 10 :: real) \<noteq> 0"
      by simp
    show ?thesis
      unfolding v0 v1 v2 v3 h_def h'_def
      using ribbon_triangles_nonzero [OF col' h1 h2 w] by blast
  qed
  have "cross (sub3 (position s1) (position s0)) (sub3 (position s2) (position s1))
                  = (0, 0, 0)
                \<and> position s1 \<noteq> position s2
                \<and> (fst (position s0) \<noteq> fst (position s1)
                    \<or> snd (snd (position s0)) \<noteq> snd (snd (position s1)))
                \<longrightarrow> \<not> zeroArea (vertexAt (positions ?g) 0) (vertexAt (positions ?g) 1)
                                  (vertexAt (positions ?g) 2)
                    \<and> \<not> zeroArea (vertexAt (positions ?g) 2) (vertexAt (positions ?g) 1)
                                  (vertexAt (positions ?g) 3)"
    using tri by (simp add: p0 p1 p2)
  with g idx lens show ?thesis
    by blast
qed

theorem three_collinear_samples_mesh_witness:
  "opacity (collinearTrail ! 0) = 1 \<and> opacity (collinearTrail ! 1) = 1
   \<and> opacity (collinearTrail ! 2) = 1
   \<and> cross (sub3 (position (collinearTrail ! 1)) (position (collinearTrail ! 0)))
        (sub3 (position (collinearTrail ! 2)) (position (collinearTrail ! 1))) = (0, 0, 0)
   \<and> position (collinearTrail ! 1) \<noteq> position (collinearTrail ! 2)
   \<and> fst (position (collinearTrail ! 0)) \<noteq> fst (position (collinearTrail ! 1))
   \<and> trailGeometry (Color 1 1 1)
        [collinearTrail ! 0, collinearTrail ! 1, collinearTrail ! 2] = Some collinearGeometry
   \<and> \<not> zeroArea (vertexAt (positions collinearGeometry) 0)
         (vertexAt (positions collinearGeometry) 1) (vertexAt (positions collinearGeometry) 2)
   \<and> \<not> zeroArea (vertexAt (positions collinearGeometry) 2)
         (vertexAt (positions collinearGeometry) 1) (vertexAt (positions collinearGeometry) 3)"
  using three_collinear_samples_mesh
    [of "collinearTrail ! 0" "collinearTrail ! 1" "collinearTrail ! 2" "Color 1 1 1"]
    collinearTrail_geometry
  by (simp add: collinearTrail_def cross_def sub3_def)

text \<open>
  Claim C9. For every list of points, with a colour and a width for each segment, the
  builder returns buffers: no step divides by zero, so no emitted number is non-finite.
  The normalisation divides by 1 instead of a zero length; a segment between two
  identical points gets zero width, both of its vertices lying on the point itself.
\<close>

theorem degenerate_segments_stay_finite:
  assumes "length points - 1 \<le> length colors" and "length points - 1 \<le> length lineWidths"
  shows "\<exists>g. generateTrailGeometry points colors lineWidths = Some g
           \<and> length (positions g) = length points * 6
           \<and> length (vertexColors g) = length points * 6
           \<and> (\<forall>i. i + 1 < length points \<and> points ! i = points ! (i + 1) \<longrightarrow>
                  vertexAt (positions g) (2 * i) = points ! i
                  \<and> vertexAt (positions g) (2 * i + 1) = points ! i)"
proof (cases "points = []")
  case True
  then show ?thesis
    by (simp add: generateTrailGeometry_empty)
next
  case False
  let ?g = "\<lparr>positions =
               concat (map (segmentPositions points lineWidths) [0..<length points - 1])
                 @ replicate 6 0,
             vertexColors =
               concat (map (segmentColors colors) [0..<length points - 1]) @ replicate 6 0,
             indices = concat (map segmentIndices [0..<length points - 1])\<rparr>"
  have g: "generateTrailGeometry points colors lineWidths = Some ?g"
    using assms False by (rule generateTrailGeometry_eq)
  from False have len: "(length points - 1) * 6 + 6 = length points * 6"
    by (cases points) simp_all
  have deg: "vertexAt (positions ?g) (2 * i) = points ! i
             \<and> vertexAt (positions ?g) (2 * i + 1) = points ! i"
    if "i + 1 < length points" and "points ! i = points ! (i + 1)" for i
  proof -
    from that(1) have i: "i < length points - 1"
      by simp
    obtain c0 c1 c2 where p: "points ! i = (c0, c1, c2)"
      by (cases "points ! i")
    with that(2) have q: "points ! (i + 1) = (c0, c1, c2)"
      by simp
    have sel: "positions ?g =
        concat (map (segmentPositions points lineWidths) [0..<length points - 1])
          @ replicate 6 0"
      by simp
    show ?thesis
      unfolding sel vertexAt_leading [OF i] p q segmentPerpendicular_vertical
      by (simp add: Let_def)
  qed
  from g len deg show ?thesis
    by simp
qed

text \<open>Two samples at the same position, the degenerate segment of the claim.\<close>

theorem degenerate_segments_stay_finite_witness:
  "length [(1, 2, 3), (1, 2, 3) :: vec3] - 1 \<le> length [Color 1 1 1, Color 1 1 1]
   \<and> length [(1, 2, 3), (1, 2, 3) :: vec3] - 1 \<le> length [1, 1 :: real]
   \<and> generateTrailGeometry [(1, 2, 3), (1, 2, 3)] [Color 1 1 1, Color 1 1 1] [1, 1]
       = Some \<lparr>positions = [1, 2, 3, 1, 2, 3, 0, 0, 0, 0, 0, 0],
               vertexColors = [1, 1, 1, 1, 1, 1, 0, 0, 0, 0, 0, 0],
               indices = [0, 1, 2, 2, 1, 3]\<rparr>"
  using degenerate_segments_stay_finite
    [of "[(1, 2, 3), (1, 2, 3)]" "[Color 1 1 1, Color 1 1 1]" "[1, 1]"]
  by (simp add: generateTrailGeometry_def forLoop.simps segmentBody_def normalize_def
      divideScalar_def js_or_def length_v_def multiplyScalar_def indexBody_def
      numeral_eq_Suc)

text \<open>
  Claim C10. For at least two points, the first loop stops before the last point: its two
  vertices keep the position \<open>(0, 0, 0)\<close> and the colour \<open>(0, 0, 0)\<close> that the arrays
  were created with, whatever the points are, and the last six indices, those of the final
  segment, are \<open>2N - 4, 2N - 3, 2N - 2, 2N - 2, 2N - 3, 2N - 1\<close>: both of its triangles
  use the unwritten vertices \<open>2N - 2\<close> and \<open>2N - 1\<close>.
\<close>

theorem last_sample_vertices_unwritten:
  assumes "2 \<le> length points"
    and "length points - 1 \<le> length colors" and "length points - 1 \<le> length lineWidths"
  shows "\<exists>g. generateTrailGeometry points colors lineWidths = Some g
           \<and> vertexAt (positions g) (2 * (length points - 1)) = (0, 0, 0)
           \<and> vertexAt (positions g) (2 * (length points - 1) + 1) = (0, 0, 0)
           \<and> vertexAt (vertexColors g) (2 * (length points - 1)) = (0, 0, 0)
           \<and> vertexAt (vertexColors g) (2 * (length points - 1) + 1) = (0, 0, 0)
           \<and> length (indices g) = 6 * (length points - 1)
           \<and> drop (6 * (length points - 2)) (indices g) =
               [2 * length points - 4, 2 * length points - 3, 2 * length points - 2,
                2 * length points - 2, 2 * length points - 3, 2 * length points - 1]"
proof -
  let ?n = "length points - 1"
  let ?g = "\<lparr>positions =
               concat (map (segmentPositions points lineWidths) [0..<?n]) @ replicate 6 0,
             vertexColors = concat (map (segmentColors colors) [0..<?n]) @ replicate 6 0,
             indices = concat (map segmentIndices [0..<?n])\<rparr>"
  from assms(1) have ne: "points \<noteq> []"
    by auto
  have g: "generateTrailGeometry points colors lineWidths = Some ?g"
    using assms(2,3) ne by (rule generateTrailGeometry_eq)
  from assms(1) have n: "?n = Suc (length points - 2)"
    by simp
  have "drop (6 * (length points - 2)) (concat (map segmentIndices [0..<?n]))
          = segmentIndices (length points - 2)"
    unfolding n by simp
  also have "\<dots> = [2 * length points - 4, 2 * length points - 3, 2 * length points - 2,
                2 * length points - 2, 2 * length points - 3, 2 * length points - 1]"
    using assms(1) by (simp add: segmentIndices_def) arith
  finally have idx: "drop (6 * (length points - 2)) (indices ?g) =
               [2 * length points - 4, 2 * length points - 3, 2 * length points - 2,
                2 * length points - 2, 2 * length points - 3, 2 * length points - 1]"
    by simp
  have sel: "positions ?g =
        concat (map (segmentPositions points lineWidths) [0..<?n]) @ replicate 6 0"
    "vertexColors ?g = concat (map (segmentColors colors) [0..<?n]) @ replicate 6 0"
    by simp_all
  have tails: "vertexAt (positions ?g) (2 * ?n) = (0, 0, 0)"
    "vertexAt (positions ?g) (2 * ?n + 1) = (0, 0, 0)"
    "vertexAt (vertexColors ?g) (2 * ?n) = (0, 0, 0)"
    "vertexAt (vertexColors ?g) (2 * ?n + 1) = (0, 0, 0)"
    unfolding sel by (rule vertexAt_trailing, simp)+
  have "length (indices ?g) = 6 * ?n"
    by simp
  with g idx tails show ?thesis
    by blast
qed

theorem last_sample_vertices_unwritten_witness:
  "2 \<le> length [(1, 2, 3), (2, 2, 3) :: vec3]
   \<and> length [(1, 2, 3), (2, 2, 3) :: vec3] - 1 \<le> length [Color 1 1 1, Color 1 1 1]
   \<and> length [(1, 2, 3), (2, 2, 3) :: vec3] - 1 \<le> length [1, 1 :: real]
   \<and> generateTrailGeometry [(1, 2, 3), (2, 2, 3)] [Color 1 1 1, Color 1 1 1] [1, 1]
       = Some \<lparr>positions = [1, 2, 31 / 10, 1, 2, 29 / 10, 0, 0, 0, 0, 0, 0],
               vertexColors = [1, 1, 1, 1, 1, 1, 0, 0, 0, 0, 0, 0],
               indices = [0, 1, 2, 2, 1, 3]\<rparr>"
  using last_sample_vertices_unwritten
    [of "[(1, 2, 3), (2, 2, 3)]" "[Color 1 1 1, Color 1 1 1]" "[1, 1]"]
  by (simp add: generateTrailGeometry_def forLoop.simps segmentBody_def normalize_def
      divideScalar_def js_or_def length_v_def multiplyScalar_def indexBody_def
      numeral_eq_Suc)

end
